theory Spec2Isabelle
  imports Main "HOL-Library.Sublist"
begin

text \<open>
  A model of \<^verbatim>\<open>ag.py\<close>, a command-line program that sends a query, with optional piped
  text or OCR output as context, to a chat-completion service and prints the reply, once
  or in an interactive loop.

  Every function of the program is a function here. What the program finds around it
  (environment variable, terminal, standard input, OCR engine) is a record \<open>env\<close>; what a
  remote call or a read from the keyboard does is a parameter of the function that makes the
  call; what the program has written and sent so far is a record \<open>world\<close> that is passed on
  and returned. A Python exception is a value: a function that can raise returns a sum
  with the exception on the left.
\<close>

section \<open>Python values used by ag.py\<close>

text \<open>
  A Python \<^verbatim>\<open>str\<close> is a sequence of Unicode code points, so it is modelled as a list of
  naturals; \<open>lit\<close> turns an ASCII literal of the source into that representation. Line
  feed is code point 10.
\<close>

type_synonym pystr = "nat list"

definition lit :: "string \<Rightarrow> pystr" where
  "lit s = map of_char s"

definition nl :: nat where
  "nl = 10"

text \<open>
  \<^verbatim>\<open>str.strip()\<close> removes leading and trailing characters for which \<^verbatim>\<open>str.isspace\<close>
  holds; these are exactly the code points listed here.
\<close>

definition isspace :: "nat \<Rightarrow> bool" where
  "isspace c \<longleftrightarrow>
     (9 \<le> c \<and> c \<le> 13) \<or> (28 \<le> c \<and> c \<le> 32) \<or> c = 133 \<or> c = 160 \<or> c = 5760 \<or>
     (8192 \<le> c \<and> c \<le> 8202) \<or> c = 8232 \<or> c = 8233 \<or> c = 8239 \<or> c = 8287 \<or> c = 12288"

definition strip :: "pystr \<Rightarrow> pystr" where
  "strip s = rev (dropWhile isspace (rev (dropWhile isspace s)))"

text \<open>
  \<^verbatim>\<open>str.lower()\<close> on the ASCII letters. The only use in the program compares the result
  with the ASCII words \<^verbatim>\<open>exit\<close>, \<^verbatim>\<open>quit\<close> and \<^verbatim>\<open>q\<close>; no code point outside \<^verbatim>\<open>A-Z\<close>
  lower-cases to one of their letters on its own (U+0130 yields \<^verbatim>\<open>i\<close> followed by
  U+0307), so the membership test below agrees with Python's on every input.
\<close>

definition lower :: "pystr \<Rightarrow> pystr" where
  "lower s = map (\<lambda>c. if 65 \<le> c \<and> c \<le> 90 then c + 32 else c) s"

text \<open>\<^verbatim>\<open>sep.join(xs)\<close>.\<close>

fun join :: "pystr \<Rightarrow> pystr list \<Rightarrow> pystr" where
  "join sep [] = []"
| "join sep [x] = x"
| "join sep (x # y # ys) = x @ sep @ join sep (y # ys)"

text \<open>
  The value of \<^verbatim>\<open>args.stream\<close>: the default \<^verbatim>\<open>True\<close> or the string given on the command
  line. \<open>truthy\<close> is Python's truth test on it.
\<close>

datatype flag = PyTrue | PyStr pystr

fun truthy :: "flag \<Rightarrow> bool" where
  "truthy PyTrue = True"
| "truthy (PyStr s) = (s \<noteq> [])"

text \<open>Truth test on a value that is \<^verbatim>\<open>None\<close> or a string.\<close>

fun truthy_opt :: "pystr option \<Rightarrow> bool" where
  "truthy_opt None = False"
| "truthy_opt (Some s) = (s \<noteq> [])"

text \<open>Formatting of such a value inside an f-string: \<^verbatim>\<open>None\<close> prints as the word None.\<close>

fun fmt :: "pystr option \<Rightarrow> pystr" where
  "fmt None = lit ''None''"
| "fmt (Some s) = s"

text \<open>
  Exceptions. \<open>Exception m\<close> stands for any instance of a subclass of \<^verbatim>\<open>Exception\<close>
  whose \<^verbatim>\<open>str\<close> is \<open>m\<close>; \<^verbatim>\<open>KeyboardInterrupt\<close> and \<^verbatim>\<open>SystemExit\<close> derive from
  \<^verbatim>\<open>BaseException\<close> only and are not caught by \<^verbatim>\<open>except Exception\<close>.
\<close>

datatype exn = Exception pystr | KeyboardInterrupt | SystemExit nat

section \<open>Data model\<close>

datatype role = System | User | Assistant

type_synonym message = "role \<times> pystr"

text \<open>One call of \<^verbatim>\<open>client.chat.completions.create\<close>, with the message list as it is at
  the time of the call.\<close>

record request =
  req_model :: pystr
  req_messages :: "message list"
  req_stream :: flag

text \<open>
  A streamed chunk is represented by its \<^verbatim>\<open>choices\<close>, each choice by its
  \<^verbatim>\<open>delta.content\<close> (\<^verbatim>\<open>None\<close> or a string). A complete response is represented by its
  \<^verbatim>\<open>choices\<close>, each by its \<^verbatim>\<open>message.content\<close>. A stream delivers its chunks in order
  and then either ends or raises.
\<close>

datatype chunk = Chunk (choices: "pystr option list")

datatype response = Completion "pystr list" | Stream "chunk list" "exn option"

text \<open>A detection of the OCR engine: bounding box, text, confidence (per mille).\<close>

type_synonym detection = "(int \<times> int) list \<times> pystr \<times> nat"

text \<open>
  What the program finds around it: the credential variable, the terminal width
  (\<^verbatim>\<open>os.get_terminal_size\<close> raises when standard output is not a terminal), standard
  input, the exception that building the OCR engine raises (if any), and the engine's
  answer for given image bytes.
\<close>

record env =
  api_key :: "pystr option"
  terminal_size :: "exn + nat"
  stdin_isatty :: bool
  stdin_buffer :: "nat list"
  stdin_text :: "exn + pystr"
  reader_init :: "exn option"
  readtext :: "nat list \<Rightarrow> exn + detection list"

text \<open>What the program has done so far: both output streams and the requests sent.\<close>

datatype out = Print pystr | Rich pystr | Prompt pystr

record world =
  stdout :: "out list"
  stderr :: "pystr list"
  requests :: "request list"

definition world0 :: world where
  "world0 = \<lparr>stdout = [], stderr = [], requests = []\<rparr>"

definition print_out :: "pystr \<Rightarrow> world \<Rightarrow> world" where
  "print_out s w = w\<lparr>stdout := stdout w @ [Print s]\<rparr>"

definition print_err :: "pystr \<Rightarrow> world \<Rightarrow> world" where
  "print_err s w = w\<lparr>stderr := stderr w @ [s]\<rparr>"

section \<open>The functions of ag.py\<close>

definition display_markdown_with_rich :: "pystr \<Rightarrow> world \<Rightarrow> world" where
  "display_markdown_with_rich markdown_string w = w\<lparr>stdout := stdout w @ [Rich markdown_string]\<rparr>"

text \<open>
  The prefix of the OCR diagnostic; its two Chinese characters are U+9519 and U+8BEF. The
  engine is built before the \<^verbatim>\<open>try\<close> block, so an exception of its constructor leaves
  \<^verbatim>\<open>ocr\<close>; only the \<^verbatim>\<open>readtext\<close> call is inside, and \<^verbatim>\<open>except Exception\<close> lets a
  \<^verbatim>\<open>KeyboardInterrupt\<close> or \<^verbatim>\<open>SystemExit\<close> through.
\<close>

definition ocr_error_prefix :: pystr where
  "ocr_error_prefix = lit ''OCR '' @ [38169, 35823] @ lit '': ''"

definition ocr :: "env \<Rightarrow> nat list \<Rightarrow> world \<Rightarrow> (exn + pystr option) \<times> world" where
  "ocr e image_input w =
     (case reader_init e of
        Some x \<Rightarrow> (Inl x, w)
      | None \<Rightarrow>
          (case readtext e image_input of
             Inr results \<Rightarrow>
               (let texts = map (\<lambda>result. fst (snd result)) results
                in (Inr (Some (strip (join [nl] texts))), w))
           | Inl (Exception m) \<Rightarrow> (Inr None, print_err (ocr_error_prefix @ m) w)
           | Inl x \<Rightarrow> (Inl x, w)))"

text \<open>The client handle is represented by the key it was built with.\<close>

definition get_client :: "env \<Rightarrow> world \<Rightarrow> (exn + pystr) \<times> world" where
  "get_client e w =
     (if \<not> truthy_opt (api_key e)
      then (Inl (SystemExit 1), print_err (lit ''Failed to find API key.'') w)
      else (Inr (the (api_key e)), w))"

text \<open>\<open>outcome\<close> is what the remote call does once it is made: a response or an exception.\<close>

definition call_deepseek ::
  "env \<Rightarrow> (exn + response) \<Rightarrow> message list \<Rightarrow> pystr \<Rightarrow> flag \<Rightarrow> world \<Rightarrow> (exn + response) \<times> world" where
  "call_deepseek e outcome messages model strm w =
     (case get_client e w of
        (Inl x, w') \<Rightarrow> (Inl x, w')
      | (Inr client, w') \<Rightarrow>
          (outcome,
           w'\<lparr>requests := requests w' @
                 [\<lparr>req_model = model, req_messages = messages, req_stream = strm\<rparr>]\<rparr>))"

text \<open>The loop of \<^verbatim>\<open>print_response\<close> over the chunks, with \<^verbatim>\<open>full_response\<close> as accumulator.\<close>

fun accumulate :: "chunk list \<Rightarrow> pystr \<Rightarrow> pystr" where
  "accumulate [] full_response = full_response"
| "accumulate (c # cs) full_response =
     accumulate cs
       (case choices c of
          [] \<Rightarrow> full_response
        | d # _ \<Rightarrow>
            (case d of
               None \<Rightarrow> full_response
             | Some content_chunk \<Rightarrow>
                 if content_chunk \<noteq> [] then full_response @ content_chunk else full_response))"

text \<open>
  The exceptions the interpreter raises when the response object does not have the shape
  the chosen branch reads: iterating a complete response yields tuples, a stream has no
  \<^verbatim>\<open>choices\<close>, and \<^verbatim>\<open>choices[0]\<close> of an empty list is out of range.
\<close>

definition tuple_has_no_choices :: exn where
  "tuple_has_no_choices =
     Exception ([39] @ lit ''tuple'' @ [39] @ lit '' object has no attribute '' @
                [39] @ lit ''choices'' @ [39])"

definition stream_has_no_choices :: exn where
  "stream_has_no_choices =
     Exception ([39] @ lit ''Stream'' @ [39] @ lit '' object has no attribute '' @
                [39] @ lit ''choices'' @ [39])"

definition index_out_of_range :: exn where
  "index_out_of_range = Exception (lit ''list index out of range'')"

text \<open>
  The separator line: \<^verbatim>\<open>os.get_terminal_size\<close> may raise, otherwise a line of that many
  equals signs (code point 61) is printed.
\<close>

definition print_separator :: "env \<Rightarrow> world \<Rightarrow> (exn + unit) \<times> world" where
  "print_separator e w =
     (case terminal_size e of
        Inl x \<Rightarrow> (Inl x, w)
      | Inr columns \<Rightarrow> (Inr (), print_out (replicate columns 61) w))"

text \<open>The two branches of \<^verbatim>\<open>print_response\<close>, after the header line has been printed.\<close>

definition stream_branch :: "env \<Rightarrow> response \<Rightarrow> world \<Rightarrow> (exn + pystr) \<times> world" where
  "stream_branch e response w =
     (case response of
        Stream chunks ending \<Rightarrow>
          (let full_response = accumulate chunks []
           in case ending of
                Some x \<Rightarrow> (Inl x, w)
              | None \<Rightarrow>
                  (case print_separator e (display_markdown_with_rich full_response w) of
                     (Inl x, w') \<Rightarrow> (Inl x, w')
                   | (Inr _, w') \<Rightarrow> (Inr full_response, w')))
      | Completion _ \<Rightarrow> (Inl tuple_has_no_choices, w))"

definition single_branch :: "env \<Rightarrow> response \<Rightarrow> world \<Rightarrow> (exn + pystr) \<times> world" where
  "single_branch e response w =
     (case response of
        Completion cs \<Rightarrow>
          (case cs of
             [] \<Rightarrow> (Inl index_out_of_range, w)
           | content0 # _ \<Rightarrow>
               (case print_separator e (print_out (lit ''    '' @ content0) w) of
                  (Inl x, w') \<Rightarrow> (Inl x, w')
                | (Inr _, w') \<Rightarrow> (Inr content0, w')))
      | Stream _ _ \<Rightarrow> (Inl stream_has_no_choices, w))"

definition model_header :: "pystr \<Rightarrow> pystr" where
  "model_header model = lit ''Model('' @ model @ lit ''):'' @ [nl]"

definition print_response ::
  "env \<Rightarrow> response \<Rightarrow> pystr \<Rightarrow> flag \<Rightarrow> world \<Rightarrow> (exn + pystr) \<times> world" where
  "print_response e response model strm w =
     (let w1 = print_out (model_header model) w
      in if truthy strm then stream_branch e response w1 else single_branch e response w1)"

text \<open>Lines 69 to 85 of \<^verbatim>\<open>query_mode\<close>: the prompt built from query and contents.\<close>

definition professional_prompt :: pystr where
  "professional_prompt =
     [nl] @ lit ''    Please answer my question with your output formatted in strict Markdown syntax, ensuring '' @
     [nl] @ lit ''    it'' @ [39] @ lit ''s directly compatible with Glow for display. Keep concise. Determine your language '' @
     [nl] @ lit ''    according to my question. Please do not use bold or italian.'' @
     [nl] @ lit ''    Try not use titles (e.g., #).'' @
     [nl] @ lit ''    My question is:'' @
     [nl] @ lit ''    ''"

definition query_prompt :: "pystr \<Rightarrow> pystr option \<Rightarrow> bool \<Rightarrow> pystr" where
  "query_prompt query contents img =
     (let prompt =
            (if contents \<noteq> Some [] then
               (if img
                then lit ''This is ocr result of the image:'' @ [nl, nl] @ fmt contents @
                     [nl, nl] @ lit ''Question:'' @ query
                else lit ''Please answer the question based on this text:'' @ [nl, nl] @
                     fmt contents @ [nl, nl] @ lit ''Question:'' @ query)
             else query);
          original_prompt = prompt
      in professional_prompt @ original_prompt)"

definition model_name :: "bool \<Rightarrow> pystr" where
  "model_name deep = (if deep then lit ''deepseek-reasoner'' else lit ''deepseek-chat'')"

definition query_mode ::
  "env \<Rightarrow> (exn + response) \<Rightarrow> pystr \<Rightarrow> pystr option \<Rightarrow> bool \<Rightarrow> bool \<Rightarrow> flag \<Rightarrow> world \<Rightarrow>
   (exn + unit) \<times> world" where
  "query_mode e outcome query contents img deep strm w =
     (let prompt = query_prompt query contents img;
          model = model_name deep;
          messages = [(User, prompt)]
      in case call_deepseek e outcome messages model strm w of
           (Inl x, w1) \<Rightarrow> (Inl x, w1)
         | (Inr response, w1) \<Rightarrow>
             (case print_response e response model strm w1 of
                (Inl x, w2) \<Rightarrow> (Inl x, w2)
              | (Inr _, w2) \<Rightarrow> (Inr (), w2)))"

section \<open>Chat mode\<close>

text \<open>
  One pass through the body of the \<^verbatim>\<open>while True\<close> loop is driven by what \<^verbatim>\<open>input\<close> does
  (a line, or an exception such as \<^verbatim>\<open>KeyboardInterrupt\<close> or \<^verbatim>\<open>EOFError\<close>) and by what the
  remote call of that pass does. The loop is run over a finite script of such passes; when
  the script is used up the loop is blocked in \<^verbatim>\<open>input\<close>, which has written its prompt.
\<close>

record turn =
  user_line :: "exn + pystr"
  api_outcome :: "exn + response"

datatype ctl = Continue | Break | Propagate exn

datatype status = Blocked | Returned | Raised exn

definition exit_keywords :: "pystr list" where
  "exit_keywords = [lit ''exit'', lit ''quit'', lit ''q'']"

definition exit_hint :: pystr where
  "exit_hint = [nl] @ lit ''Type '' @ [39] @ lit ''exit'' @ [39] @ lit '', '' @
               [39] @ lit ''quit'' @ [39] @ lit '', or '' @ [39] @ lit ''q'' @ [39] @
               lit '' to exit.''"

text \<open>The two \<^verbatim>\<open>except\<close> clauses of the loop body; anything else propagates.\<close>

fun handle_exn :: "exn \<Rightarrow> world \<Rightarrow> ctl \<times> world" where
  "handle_exn KeyboardInterrupt w = (Continue, print_out exit_hint w)"
| "handle_exn (Exception m) w = (Continue, print_err (lit ''Error: '' @ m) w)"
| "handle_exn (SystemExit n) w = (Propagate (SystemExit n), w)"

text \<open>\<^verbatim>\<open>input(prompt)\<close> writes its prompt before it reads.\<close>

definition show_prompt :: "pystr \<Rightarrow> world \<Rightarrow> world" where
  "show_prompt p w = w\<lparr>stdout := stdout w @ [Prompt p]\<rparr>"

definition user_prompt :: pystr where
  "user_prompt = [nl] @ lit ''User'' @ [nl]"

definition chat_turn ::
  "env \<Rightarrow> pystr \<Rightarrow> flag \<Rightarrow> turn \<Rightarrow> message list \<times> world \<Rightarrow> ctl \<times> message list \<times> world" where
  "chat_turn e model strm t s =
     (case s of (messages, w) \<Rightarrow>
        (let w0 = show_prompt user_prompt w
         in case user_line t of
              Inl x \<Rightarrow> (case handle_exn x w0 of (c, w') \<Rightarrow> (c, messages, w'))
            | Inr line \<Rightarrow>
                (let user_input = strip line
                 in if lower user_input \<in> set exit_keywords then (Break, messages, w0)
                    else
                      (let messages1 = messages @ [(User, user_input)]
                       in case call_deepseek e (api_outcome t) messages1 model strm w0 of
                            (Inl x, w1) \<Rightarrow>
                              (case handle_exn x w1 of (c, w') \<Rightarrow> (c, messages1, w'))
                          | (Inr response, w1) \<Rightarrow>
                              (case print_response e response model strm w1 of
                                 (Inl x, w2) \<Rightarrow>
                                   (case handle_exn x w2 of (c, w') \<Rightarrow> (c, messages1, w'))
                               | (Inr reply, w2) \<Rightarrow>
                                   (Continue, messages1 @ [(Assistant, reply)], w2))))))"

fun chat_loop ::
  "env \<Rightarrow> pystr \<Rightarrow> flag \<Rightarrow> turn list \<Rightarrow> message list \<times> world \<Rightarrow> status \<times> message list \<times> world" where
  "chat_loop e model strm [] s =
     (case s of (messages, w) \<Rightarrow> (Blocked, messages, show_prompt user_prompt w))"
| "chat_loop e model strm (t # ts) s =
     (case chat_turn e model strm t s of
        (Continue, s') \<Rightarrow> chat_loop e model strm ts s'
      | (Break, s') \<Rightarrow> (Returned, s')
      | (Propagate x, s') \<Rightarrow> (Raised x, s'))"

definition system_prompt :: pystr where
  "system_prompt = lit ''Please give precise and crispy answers. Faster is better.''"

definition chat_banner :: pystr where
  "chat_banner = lit ''Entering chat mode. Type '' @ [39] @ lit ''exit'' @ [39] @ lit '', '' @
                 [39] @ lit ''quit'' @ [39] @ lit '', or '' @ [39] @ lit ''q'' @ [39] @
                 lit '' to exit.''"

definition chat_mode ::
  "env \<Rightarrow> bool \<Rightarrow> flag \<Rightarrow> turn list \<Rightarrow> world \<Rightarrow> status \<times> message list \<times> world" where
  "chat_mode e deep strm ts w =
     (let model = model_name deep;
          messages = [(System, system_prompt)];
          w1 = print_out chat_banner w;
          w2 = print_out (lit ''--------------------------------------'') w1
      in chat_loop e model strm ts (messages, w2))"

section \<open>Command line and main\<close>

text \<open>
  The options as \<^verbatim>\<open>argparse\<close> sees them: \<^verbatim>\<open>-q\<close> with or without a value
  (\<^verbatim>\<open>nargs='?'\<close>, \<^verbatim>\<open>const=''\<close>), the three switches, and \<^verbatim>\<open>-s\<close> with its value. A later
  occurrence of an option overrides an earlier one.
\<close>

datatype opt = OptQuery "pystr option" | OptImage | OptDeep | OptChat | OptStream pystr

record args =
  arg_query :: "pystr option"
  arg_image :: bool
  arg_deep :: bool
  arg_chat :: bool
  arg_stream :: flag

definition default_args :: args where
  "default_args =
     \<lparr>arg_query = None, arg_image = False, arg_deep = False, arg_chat = False,
      arg_stream = PyTrue\<rparr>"

fun set_opt :: "args \<Rightarrow> opt \<Rightarrow> args" where
  "set_opt a (OptQuery None) = a\<lparr>arg_query := Some []\<rparr>"
| "set_opt a (OptQuery (Some v)) = a\<lparr>arg_query := Some v\<rparr>"
| "set_opt a OptImage = a\<lparr>arg_image := True\<rparr>"
| "set_opt a OptDeep = a\<lparr>arg_deep := True\<rparr>"
| "set_opt a OptChat = a\<lparr>arg_chat := True\<rparr>"
| "set_opt a (OptStream v) = a\<lparr>arg_stream := PyStr v\<rparr>"

definition parse_args :: "opt list \<Rightarrow> args" where
  "parse_args opts = foldl set_opt default_args opts"

text \<open>Lines 148 to 155 of \<^verbatim>\<open>main\<close>: the contents read from standard input.\<close>

definition read_contents :: "env \<Rightarrow> args \<Rightarrow> world \<Rightarrow> (exn + pystr option) \<times> world" where
  "read_contents e a w =
     (if \<not> stdin_isatty e then
        (if arg_image a then ocr e (stdin_buffer e) w
         else (case stdin_text e of
                 Inl x \<Rightarrow> (Inl x, w)
               | Inr s \<Rightarrow> (Inr (Some (strip s)), w)))
      else (Inr (Some []), w))"

definition main ::
  "env \<Rightarrow> opt list \<Rightarrow> (exn + response) \<Rightarrow> turn list \<Rightarrow> world \<Rightarrow> status \<times> world" where
  "main e opts outcome ts w =
     (let a = parse_args opts
      in if arg_chat a then
           (case chat_mode e (arg_deep a) (arg_stream a) ts w of (st, _, w') \<Rightarrow> (st, w'))
         else
           (case read_contents e a w of
              (Inl x, w1) \<Rightarrow> (Raised x, w1)
            | (Inr contents, w1) \<Rightarrow>
                if truthy_opt (arg_query a) then
                  (let query = arg_query a
                   in if \<not> truthy_opt query
                      then (Raised (SystemExit 1),
                            print_err (lit ''Error: Please provide a query.'') w1)
                      else
                        (case query_mode e outcome (the query) contents (arg_image a)
                                (arg_deep a) (arg_stream a) w1 of
                           (Inl x, w2) \<Rightarrow> (Raised x, w2)
                         | (Inr _, w2) \<Rightarrow> (Returned, w2)))
                else (Returned, w1)))"

section \<open>Reference notions and sample inputs\<close>

text \<open>
  The text a streamed chunk carries: the \<^verbatim>\<open>delta.content\<close> of its first choice, and
  nothing when it has no choice or the content is \<^verbatim>\<open>None\<close>.
\<close>

fun chunk_text :: "chunk \<Rightarrow> pystr" where
  "chunk_text (Chunk []) = []"
| "chunk_text (Chunk (None # _)) = []"
| "chunk_text (Chunk (Some s # _)) = s"

text \<open>The test of line 113 on what \<^verbatim>\<open>input\<close> delivered in a pass of the chat loop.\<close>

definition is_exit_input :: "turn \<Rightarrow> bool" where
  "is_exit_input t =
     (case user_line t of
        Inl _ \<Rightarrow> False
      | Inr line \<Rightarrow> lower (strip line) \<in> set exit_keywords)"

text \<open>
  What the sending and rendering phases of a pass come to: the exception raised by
  \<^verbatim>\<open>call_deepseek\<close> or \<^verbatim>\<open>print_response\<close>, or the reply returned. Neither depends on the
  history or on what has been printed before.
\<close>

definition turn_result :: "env \<Rightarrow> pystr \<Rightarrow> flag \<Rightarrow> turn \<Rightarrow> exn + pystr" where
  "turn_result e model strm t =
     (case fst (call_deepseek e (api_outcome t) [] model strm world0) of
        Inl x \<Rightarrow> Inl x
      | Inr response \<Rightarrow> fst (print_response e response model strm world0))"

text \<open>
  A pass is a completed turn when \<^verbatim>\<open>input\<close> delivers a line that is not an exit keyword
  and the sending and rendering phases end with a reply. Such a pass contributes the
  user's message (the stripped line) and the assistant's message (the reply).
\<close>

definition completed :: "env \<Rightarrow> pystr \<Rightarrow> flag \<Rightarrow> turn \<Rightarrow> bool" where
  "completed e model strm t =
     (case user_line t of
        Inl _ \<Rightarrow> False
      | Inr line \<Rightarrow>
          lower (strip line) \<notin> set exit_keywords \<and>
          (case turn_result e model strm t of Inl _ \<Rightarrow> False | Inr _ \<Rightarrow> True))"

definition user_message :: "turn \<Rightarrow> message" where
  "user_message t = (User, strip (projr (user_line t)))"

definition assistant_message :: "env \<Rightarrow> pystr \<Rightarrow> flag \<Rightarrow> turn \<Rightarrow> message" where
  "assistant_message e model strm t = (Assistant, projr (turn_result e model strm t))"

definition pair_of :: "env \<Rightarrow> pystr \<Rightarrow> flag \<Rightarrow> turn \<Rightarrow> message list" where
  "pair_of e model strm t = [user_message t, assistant_message e model strm t]"

text \<open>
  Sample environments: credential set, a terminal four columns wide, standard input a
  terminal, and an OCR engine that can be built and fails on every image; the same without the credential;
  and the same with an image piped into standard input.
\<close>

definition example_env :: env where
  "example_env =
     \<lparr>api_key = Some (lit ''sk-1''), terminal_size = Inr 4, stdin_isatty = True,
      stdin_buffer = [], stdin_text = Inr [], reader_init = None,
      readtext = (\<lambda>_. Inl (Exception (lit ''bad image'')))\<rparr>"

definition no_key_env :: env where
  "no_key_env = example_env\<lparr>api_key := None\<rparr>"

definition failing_ocr_env :: env where
  "failing_ocr_env = example_env\<lparr>stdin_isatty := False, stdin_buffer := [137, 80, 78, 71]\<rparr>"

text \<open>
  The sample environment with standard output redirected, so that there is no terminal to
  ask for its width.
\<close>

definition no_terminal_env :: env where
  "no_terminal_env =
     example_env\<lparr>terminal_size :=
       Inl (Exception (lit ''[Errno 25] Inappropriate ioctl for device''))\<rparr>"

text \<open>
  The command line with every \<^verbatim>\<open>-s\<close> option removed, and what can be observed of a run
  apart from the \<^verbatim>\<open>stream\<close> argument of its requests: both output streams, and the model
  and messages of each request.
\<close>

fun is_stream_opt :: "opt \<Rightarrow> bool" where
  "is_stream_opt (OptStream _) = True"
| "is_stream_opt _ = False"

definition without_stream :: "opt list \<Rightarrow> opt list" where
  "without_stream opts = filter (\<lambda>x. \<not> is_stream_opt x) opts"

definition observable :: "world \<Rightarrow> out list \<times> pystr list \<times> (pystr \<times> message list) list" where
  "observable w =
     (stdout w, stderr w, map (\<lambda>r. (req_model r, req_messages r)) (requests w))"

text \<open>
  Sample passes of the chat loop: two that are answered, one whose request fails, an
  interrupt at the prompt, and an exit keyword in capitals between blanks.
\<close>

definition hello_turn :: turn where
  "hello_turn =
     \<lparr>user_line = Inr (lit ''hello''),
      api_outcome = Inr (Stream [Chunk [Some (lit ''Hi'')], Chunk [Some (lit ''!'')]] None)\<rparr>"

definition why_turn :: turn where
  "why_turn =
     \<lparr>user_line = Inr (lit '' Why? ''),
      api_outcome = Inr (Stream [Chunk [], Chunk [Some (lit ''Because.'')]] None)\<rparr>"

definition boom_turn :: turn where
  "boom_turn = \<lparr>user_line = Inr (lit ''hello''), api_outcome = Inl (Exception (lit ''boom''))\<rparr>"

definition interrupt_turn :: turn where
  "interrupt_turn = \<lparr>user_line = Inl KeyboardInterrupt, api_outcome = Inr (Stream [] None)\<rparr>"

definition exit_turn :: turn where
  "exit_turn = \<lparr>user_line = Inr (lit '' EXIT ''), api_outcome = Inr (Stream [] None)\<rparr>"

section \<open>Auxiliary lemmas\<close>

lemma lit_append: "lit (a @ b) = lit a @ lit b"
  by (simp add: lit_def)

lemma professional_prompt_nonempty: "professional_prompt \<noteq> []"
  by (simp add: professional_prompt_def)

lemma strip_hello: "strip (lit ''hello'') = lit ''hello''"
  by (simp add: strip_def lit_def isspace_def)

lemma hello_not_exit: "lower (lit ''hello'') \<notin> set exit_keywords"
  by (simp add: lower_def lit_def exit_keywords_def)

lemma strip_why: "strip (lit '' Why? '') = lit ''Why?''"
  by (simp add: strip_def lit_def isspace_def)

lemma why_not_exit: "lower (lit ''Why?'') \<notin> set exit_keywords"
  by (simp add: lower_def lit_def exit_keywords_def)

lemma example_key: "truthy_opt (api_key example_env)"
  by (simp add: example_env_def lit_def)

lemma example_terminal: "terminal_size example_env = Inr 4"
  by (simp add: example_env_def)

lemma no_key: "\<not> truthy_opt (api_key no_key_env)"
  by (simp add: no_key_env_def)

lemma foldl_set_opt_stream:
  "\<forall>v. OptStream v \<notin> set opts \<Longrightarrow> arg_stream (foldl set_opt a opts) = arg_stream a"
proof (induction opts arbitrary: a)
  case Nil
  show ?case by simp
next
  case (Cons o1 opts)
  then have "arg_stream (foldl set_opt (set_opt a o1) opts) = arg_stream (set_opt a o1)"
    by simp
  moreover have "arg_stream (set_opt a o1) = arg_stream a"
    using Cons.prems by (cases "(a, o1)" rule: set_opt.cases) auto
  ultimately show ?case by simp
qed

lemma print_response_requests [simp]:
  "requests (snd (print_response e r m strm w)) = requests w"
  by (simp add: print_response_def stream_branch_def single_branch_def print_separator_def
      print_out_def display_markdown_with_rich_def Let_def
      split: response.splits option.splits sum.splits list.splits)

lemma print_response_stderr [simp]:
  "stderr (snd (print_response e r m strm w)) = stderr w"
  by (simp add: print_response_def stream_branch_def single_branch_def print_separator_def
      print_out_def display_markdown_with_rich_def Let_def
      split: response.splits option.splits sum.splits list.splits)

lemma print_response_fst:
  "fst (print_response e r m strm w) = fst (print_response e r m strm w')"
  by (simp add: print_response_def stream_branch_def single_branch_def print_separator_def
      Let_def split: response.splits option.splits sum.splits list.splits)

lemma call_deepseek_with_key:
  "truthy_opt (api_key e) \<Longrightarrow>
   call_deepseek e outcome messages model strm w =
     (outcome, w\<lparr>requests := requests w @
        [\<lparr>req_model = model, req_messages = messages, req_stream = strm\<rparr>]\<rparr>)"
  by (simp add: call_deepseek_def get_client_def)

lemma call_deepseek_without_key:
  "\<not> truthy_opt (api_key e) \<Longrightarrow>
   call_deepseek e outcome messages model strm w =
     (Inl (SystemExit 1), print_err (lit ''Failed to find API key.'') w)"
  by (simp add: call_deepseek_def get_client_def)

lemma query_mode_world:
  "snd (query_mode e outcome query contents img deep strm w) =
     (case call_deepseek e outcome [(User, query_prompt query contents img)]
             (model_name deep) strm w of
        (Inl x, w1) \<Rightarrow> w1
      | (Inr response, w1) \<Rightarrow> snd (print_response e response (model_name deep) strm w1))"
  by (simp add: query_mode_def Let_def split: prod.splits sum.splits)

lemma query_mode_requests:
  "truthy_opt (api_key e) \<Longrightarrow>
   requests (snd (query_mode e outcome query contents img deep strm w)) =
     requests w @ [\<lparr>req_model = model_name deep,
                    req_messages = [(User, query_prompt query contents img)],
                    req_stream = strm\<rparr>]"
  by (cases outcome) (simp_all add: query_mode_world call_deepseek_with_key)

lemma accumulate_concat: "accumulate cs acc = acc @ concat (map chunk_text cs)"
proof (induction cs arbitrary: acc)
  case Nil
  show ?case by simp
next
  case (Cons c cs)
  show ?case
  proof (cases c)
    case (Chunk ds)
    then show ?thesis using Cons.IH
      by (cases ds) (auto split: option.splits)
  qed
qed

lemma chat_turn_exit:
  "is_exit_input t \<Longrightarrow>
   chat_turn e model strm t (messages, w) = (Break, messages, show_prompt user_prompt w)"
  by (auto simp add: chat_turn_def is_exit_input_def Let_def split: sum.splits)

lemma chat_turn_input_raises:
  "user_line t = Inl x \<Longrightarrow>
   chat_turn e model strm t (messages, w) =
     (fst (handle_exn x (show_prompt user_prompt w)), messages,
      snd (handle_exn x (show_prompt user_prompt w)))"
  by (simp add: chat_turn_def Let_def split: prod.splits)

lemma chat_turn_send:
  "user_line t = Inr line \<Longrightarrow> lower (strip line) \<notin> set exit_keywords \<Longrightarrow>
   chat_turn e model strm t (messages, w) =
     (case call_deepseek e (api_outcome t) (messages @ [(User, strip line)]) model strm
             (show_prompt user_prompt w) of
        (Inl x, w1) \<Rightarrow>
          (fst (handle_exn x w1), messages @ [(User, strip line)], snd (handle_exn x w1))
      | (Inr response, w1) \<Rightarrow>
          (case print_response e response model strm w1 of
             (Inl x, w2) \<Rightarrow>
               (fst (handle_exn x w2), messages @ [(User, strip line)], snd (handle_exn x w2))
           | (Inr reply, w2) \<Rightarrow>
               (Continue, messages @ [(User, strip line), (Assistant, reply)], w2)))"
  by (simp add: chat_turn_def Let_def split: prod.splits sum.splits)

text \<open>The world after the sending and rendering phases of a pass.\<close>

lemma turn_phases:
  assumes "user_line t = Inr line" and "lower (strip line) \<notin> set exit_keywords"
  shows "\<exists>w1.
    chat_turn e model strm t (messages, w) =
      (case turn_result e model strm t of
         Inl x \<Rightarrow> (fst (handle_exn x w1), messages @ [(User, strip line)], snd (handle_exn x w1))
       | Inr reply \<Rightarrow> (Continue, messages @ [(User, strip line), (Assistant, reply)], w1)) \<and>
    stderr w1 = (if truthy_opt (api_key e) then stderr w
                 else stderr w @ [lit ''Failed to find API key.'']) \<and>
    requests w1 = (if truthy_opt (api_key e)
                   then requests w @ [\<lparr>req_model = model,
                          req_messages = messages @ [(User, strip line)], req_stream = strm\<rparr>]
                   else requests w)"
proof (cases "truthy_opt (api_key e)")
  case False
  then show ?thesis using assms
    by (intro exI [of _ "print_err (lit ''Failed to find API key.'') (show_prompt user_prompt w)"])
       (simp add: chat_turn_send turn_result_def call_deepseek_without_key print_err_def
        show_prompt_def)
next
  case True
  note key = this
  show ?thesis
  proof (cases "api_outcome t")
    case (Inl x)
    then show ?thesis using assms key
      by (intro exI [of _ "(show_prompt user_prompt w)\<lparr>requests :=
            requests (show_prompt user_prompt w) @
            [\<lparr>req_model = model, req_messages = messages @ [(User, strip line)],
              req_stream = strm\<rparr>]\<rparr>"])
         (simp add: chat_turn_send turn_result_def call_deepseek_with_key show_prompt_def)
  next
    case (Inr response)
    let ?w0 = "(show_prompt user_prompt w)\<lparr>requests := requests (show_prompt user_prompt w) @
        [\<lparr>req_model = model, req_messages = messages @ [(User, strip line)],
          req_stream = strm\<rparr>]\<rparr>"
    obtain r w2 where pr: "print_response e response model strm ?w0 = (r, w2)"
      by (cases "print_response e response model strm ?w0")
    have r: "fst (print_response e response model strm world0) = r"
      using print_response_fst [of e response model strm world0 ?w0] pr by simp
    have "stderr (snd (r, w2)) = stderr ?w0" and "requests (snd (r, w2)) = requests ?w0"
      unfolding pr [symmetric] by (rule print_response_stderr, rule print_response_requests)
    then have s: "stderr w2 = stderr w"
      and q: "requests w2 = requests w @ [\<lparr>req_model = model,
        req_messages = messages @ [(User, strip line)], req_stream = strm\<rparr>]"
      by (simp_all add: show_prompt_def)
    have "chat_turn e model strm t (messages, w) =
      (case r of
         Inl x \<Rightarrow> (fst (handle_exn x w2), messages @ [(User, strip line)], snd (handle_exn x w2))
       | Inr reply \<Rightarrow> (Continue, messages @ [(User, strip line), (Assistant, reply)], w2))"
      using assms key Inr pr
      by (simp add: chat_turn_send call_deepseek_with_key split: sum.splits)
    moreover have "turn_result e model strm t = r"
      using key Inr r by (simp add: turn_result_def call_deepseek_with_key)
    ultimately show ?thesis using s q key by (intro exI [of _ w2]) simp
  qed
qed

lemma turn_result_reply_key:
  "turn_result e model strm t = Inr reply \<Longrightarrow> truthy_opt (api_key e)"
  by (rule ccontr) (simp add: turn_result_def call_deepseek_without_key)

lemma chat_turn_completed:
  assumes "completed e model strm t"
  shows "\<exists>w'. chat_turn e model strm t (msgs, w) = (Continue, msgs @ pair_of e model strm t, w') \<and>
              stderr w' = stderr w \<and>
              requests w' = requests w @
                [\<lparr>req_model = model, req_messages = msgs @ [user_message t],
                  req_stream = strm\<rparr>]"
proof -
  obtain line reply where l: "user_line t = Inr line"
    and n: "lower (strip line) \<notin> set exit_keywords"
    and r: "turn_result e model strm t = Inr reply"
    using assms by (auto simp add: completed_def split: sum.splits)
  have k: "truthy_opt (api_key e)"
    using r by (rule turn_result_reply_key)
  obtain w1 where "chat_turn e model strm t (msgs, w) =
      (Continue, msgs @ [(User, strip line), (Assistant, reply)], w1)"
    and "stderr w1 = stderr w"
    and "requests w1 = requests w @ [\<lparr>req_model = model,
           req_messages = msgs @ [(User, strip line)], req_stream = strm\<rparr>]"
    using turn_phases [OF l n, of e model strm msgs w] r k by auto
  then show ?thesis
    using l r by (intro exI [of _ w1])
      (simp add: pair_of_def user_message_def assistant_message_def)
qed

lemma chat_loop_completed:
  assumes "\<forall>t\<in>set ts. completed e model strm t"
  shows "\<exists>w'. chat_loop e model strm ts (msgs, w) =
                (Blocked, msgs @ concat (map (pair_of e model strm) ts), w') \<and>
              stderr w' = stderr w \<and>
              map req_messages (requests w') =
                map req_messages (requests w) @
                map (\<lambda>k. take (length msgs + 2 * k + 1)
                            (msgs @ concat (map (pair_of e model strm) ts)))
                    [0..<length ts]"
  using assms
proof (induction ts arbitrary: msgs w)
  case Nil
  show ?case by (simp add: show_prompt_def)
next
  case (Cons t ts)
  let ?p = "pair_of e model strm t"
  let ?rest = "concat (map (pair_of e model strm) ts)"
  from Cons.prems have c: "completed e model strm t"
    and cs: "\<forall>t\<in>set ts. completed e model strm t" by simp_all
  obtain w1 where t1: "chat_turn e model strm t (msgs, w) = (Continue, msgs @ ?p, w1)"
    and s1: "stderr w1 = stderr w"
    and q1: "requests w1 = requests w @
                [\<lparr>req_model = model, req_messages = msgs @ [user_message t],
                  req_stream = strm\<rparr>]"
    using chat_turn_completed [OF c, of msgs w] by blast
  obtain w2 where l2: "chat_loop e model strm ts (msgs @ ?p, w1) =
        (Blocked, (msgs @ ?p) @ ?rest, w2)"
    and s2: "stderr w2 = stderr w1"
    and q2: "map req_messages (requests w2) =
                map req_messages (requests w1) @
                map (\<lambda>k. take (length (msgs @ ?p) + 2 * k + 1) ((msgs @ ?p) @ ?rest))
                    [0..<length ts]"
    using Cons.IH [OF cs, of "msgs @ ?p" w1] by blast
  have first: "take (length msgs + 1) (msgs @ ?p @ ?rest) = msgs @ [user_message t]"
    by (simp add: pair_of_def)
  have step: "take (length msgs + 2 * Suc k + 1) (msgs @ ?p @ ?rest) =
      take (length (msgs @ ?p) + 2 * k + 1) ((msgs @ ?p) @ ?rest)" for k
    by (simp add: pair_of_def)
  have shift: "map (\<lambda>k. take (length msgs + 2 * k + 1) (msgs @ ?p @ ?rest)) [0..<Suc (length ts)] =
      take (length msgs + 1) (msgs @ ?p @ ?rest) #
      map (\<lambda>k. take (length (msgs @ ?p) + 2 * k + 1) ((msgs @ ?p) @ ?rest)) [0..<length ts]"
    unfolding map_upt_Suc step by simp
  have form: "map (\<lambda>k. take (length msgs + 2 * k + 1)
                      (msgs @ concat (map (pair_of e model strm) (t # ts))))
                [0..<length (t # ts)] =
      (msgs @ [user_message t]) #
      map (\<lambda>k. take (length (msgs @ ?p) + 2 * k + 1) ((msgs @ ?p) @ ?rest)) [0..<length ts]"
  proof -
    have "concat (map (pair_of e model strm) (t # ts)) = ?p @ ?rest"
      and "length (t # ts) = Suc (length ts)"
      by simp_all
    then show ?thesis using shift first by (simp only:)
  qed
  have sent: "map req_messages (requests w2) =
      map req_messages (requests w) @
      (msgs @ [user_message t]) #
      map (\<lambda>k. take (length (msgs @ ?p) + 2 * k + 1) ((msgs @ ?p) @ ?rest)) [0..<length ts]"
    using q2 q1 by simp
  have loop: "chat_loop e model strm (t # ts) (msgs, w) =
      (Blocked, msgs @ concat (map (pair_of e model strm) (t # ts)), w2)"
    using t1 l2 by simp
  have err: "stderr w2 = stderr w"
    using s1 s2 by simp
  show ?case
    unfolding form using loop err sent by (intro exI [of _ w2] conjI)
qed

lemma length_pairs: "length (concat (map (pair_of e model strm) ts)) = 2 * length ts"
  by (induction ts) (simp_all add: pair_of_def)

lemma handle_exn_ctl:
  "fst (handle_exn x w) \<noteq> Break \<and>
   (fst (handle_exn x w) = Propagate y \<longrightarrow> x = y \<and> (\<exists>n. y = SystemExit n))"
  by (cases x) auto

lemma chat_turn_ctl:
  "(fst (chat_turn e model strm t (messages, w)) = Break \<longleftrightarrow> is_exit_input t) \<and>
   (fst (chat_turn e model strm t (messages, w)) = Propagate x \<longrightarrow> (\<exists>n. x = SystemExit n))"
proof (cases "user_line t")
  case (Inl y)
  then show ?thesis
    using handle_exn_ctl [of y "show_prompt user_prompt w" x]
    by (simp add: chat_turn_input_raises is_exit_input_def)
next
  case (Inr line)
  show ?thesis
  proof (cases "lower (strip line) \<in> set exit_keywords")
    case True
    then have "is_exit_input t" using Inr by (simp add: is_exit_input_def)
    then show ?thesis by (simp add: chat_turn_exit)
  next
    case False
    then have n: "\<not> is_exit_input t" using Inr by (simp add: is_exit_input_def)
    obtain w1 where c: "chat_turn e model strm t (messages, w) =
      (case turn_result e model strm t of
         Inl y \<Rightarrow> (fst (handle_exn y w1), messages @ [(User, strip line)], snd (handle_exn y w1))
       | Inr reply \<Rightarrow> (Continue, messages @ [(User, strip line), (Assistant, reply)], w1))"
      using turn_phases [OF Inr False, of e model strm messages w] by blast
    show ?thesis
    proof (cases "turn_result e model strm t")
      case (Inl y)
      then show ?thesis using c n handle_exn_ctl [of y w1 x] by simp
    next
      case (Inr reply)
      then show ?thesis using c n by simp
    qed
  qed
qed

lemma chat_loop_Nil_fst: "fst (chat_loop e model strm [] s) = Blocked"
  by (cases s) simp

lemma chat_loop_step:
  "chat_loop e model strm (t # ts) s =
     (case fst (chat_turn e model strm t s) of
        Continue \<Rightarrow> chat_loop e model strm ts (snd (chat_turn e model strm t s))
      | Break \<Rightarrow> (Returned, snd (chat_turn e model strm t s))
      | Propagate x \<Rightarrow> (Raised x, snd (chat_turn e model strm t s)))"
  by (cases "chat_turn e model strm t s") (simp split: ctl.splits)

lemma chat_loop_raised:
  "fst (chat_loop e model strm ts s) = Raised x \<Longrightarrow> \<exists>n. x = SystemExit n"
proof (induction ts arbitrary: s)
  case Nil
  then show ?case by (cases s) simp
next
  case (Cons t ts)
  obtain messages w where s: "s = (messages, w)" by (cases s)
  show ?case
  proof (cases "fst (chat_turn e model strm t s)")
    case Continue
    then show ?thesis using Cons by (simp add: chat_loop_step del: chat_loop.simps(2))
  next
    case Break
    then show ?thesis using Cons.prems by (simp add: chat_loop_step del: chat_loop.simps(2))
  next
    case (Propagate y)
    then have "y = x" using Cons.prems by (simp add: chat_loop_step del: chat_loop.simps(2))
    then show ?thesis using Propagate chat_turn_ctl [of e model strm t messages w x] s by simp
  qed
qed

lemma chat_loop_returned:
  "fst (chat_loop e model strm ts s) = Returned \<longleftrightarrow>
   (\<exists>pre t post. ts = pre @ t # post \<and> fst (chat_loop e model strm pre s) = Blocked \<and>
      is_exit_input t)"
proof (induction ts arbitrary: s)
  case Nil
  show ?case by (cases s) simp
next
  case (Cons t ts)
  obtain messages w where s: "s = (messages, w)" by (cases s)
  have b: "fst (chat_turn e model strm t s) = Break \<longleftrightarrow> is_exit_input t"
    using chat_turn_ctl [of e model strm t messages w] s by simp
  have e0: "fst (chat_loop e model strm [] s) = Blocked" by (cases s) simp
  show ?case
  proof (cases "fst (chat_turn e model strm t s)")
    case Break
    then have "is_exit_input t" using b by simp
    then have "\<exists>pre t' post. t # ts = pre @ t' # post \<and>
        fst (chat_loop e model strm pre s) = Blocked \<and> is_exit_input t'"
      using e0 by (intro exI [of _ "[]"] exI [of _ t] exI [of _ ts]) simp
    then show ?thesis using Break by (simp add: chat_loop_step del: chat_loop.simps(2))
  next
    case Continue
    then have n: "\<not> is_exit_input t" using b by simp
    let ?s' = "snd (chat_turn e model strm t s)"
    have "(\<exists>pre t' post. t # ts = pre @ t' # post \<and>
             fst (chat_loop e model strm pre s) = Blocked \<and> is_exit_input t') \<longleftrightarrow>
          (\<exists>pre t' post. ts = pre @ t' # post \<and>
             fst (chat_loop e model strm pre ?s') = Blocked \<and> is_exit_input t')"
    proof
      assume "\<exists>pre t' post. t # ts = pre @ t' # post \<and>
             fst (chat_loop e model strm pre s) = Blocked \<and> is_exit_input t'"
      then obtain pre t' post where p: "t # ts = pre @ t' # post"
        and l: "fst (chat_loop e model strm pre s) = Blocked" and x: "is_exit_input t'"
        by blast
      show "\<exists>pre t' post. ts = pre @ t' # post \<and>
             fst (chat_loop e model strm pre ?s') = Blocked \<and> is_exit_input t'"
      proof (cases pre)
        case Nil
        then show ?thesis using p x n by simp
      next
        case (Cons a pre')
        then have "a = t" and "ts = pre' @ t' # post" using p by simp_all
        moreover have "fst (chat_loop e model strm pre' ?s') = Blocked"
          using l Cons \<open>a = t\<close> Continue by (simp add: chat_loop_step del: chat_loop.simps(2))
        ultimately show ?thesis using x by blast
      qed
    next
      assume "\<exists>pre t' post. ts = pre @ t' # post \<and>
             fst (chat_loop e model strm pre ?s') = Blocked \<and> is_exit_input t'"
      then obtain pre t' post where p: "ts = pre @ t' # post"
        and l: "fst (chat_loop e model strm pre ?s') = Blocked" and x: "is_exit_input t'"
        by blast
      have "t # ts = (t # pre) @ t' # post" using p by simp
      moreover have "fst (chat_loop e model strm (t # pre) s) = Blocked"
        using l Continue by (simp add: chat_loop_step del: chat_loop.simps(2))
      ultimately show "\<exists>pre t' post. t # ts = pre @ t' # post \<and>
             fst (chat_loop e model strm pre s) = Blocked \<and> is_exit_input t'"
        using x by blast
    qed
    then show ?thesis using Continue Cons.IH [of ?s'] by (simp add: chat_loop_step del: chat_loop.simps(2))
  next
    case (Propagate y)
    then have n: "\<not> is_exit_input t" using b by simp
    have "\<not> (\<exists>pre t' post. t # ts = pre @ t' # post \<and>
             fst (chat_loop e model strm pre s) = Blocked \<and> is_exit_input t')"
    proof
      assume "\<exists>pre t' post. t # ts = pre @ t' # post \<and>
             fst (chat_loop e model strm pre s) = Blocked \<and> is_exit_input t'"
      then obtain pre t' post where p: "t # ts = pre @ t' # post"
        and l: "fst (chat_loop e model strm pre s) = Blocked" and x: "is_exit_input t'"
        by blast
      show False
      proof (cases pre)
        case Nil
        then show ?thesis using p x n by simp
      next
        case (Cons a pre')
        then have "a = t" using p by simp
        then show ?thesis using l Cons Propagate by (simp add: chat_loop_step del: chat_loop.simps(2))
      qed
    qed
    then show ?thesis using Propagate by (simp add: chat_loop_step del: chat_loop.simps(2))
  qed
qed

text \<open>The sample passes, evaluated.\<close>

lemma hello_result:
  "turn_result example_env (model_name False) PyTrue hello_turn = Inr (lit ''Hi!'')"
  by (simp add: turn_result_def hello_turn_def call_deepseek_with_key [OF example_key]
      print_response_def stream_branch_def print_separator_def example_terminal
      accumulate_concat Let_def lit_def)

lemma why_result:
  "turn_result example_env (model_name False) PyTrue why_turn = Inr (lit ''Because.'')"
  by (simp add: turn_result_def why_turn_def call_deepseek_with_key [OF example_key]
      print_response_def stream_branch_def print_separator_def example_terminal
      accumulate_concat Let_def lit_def)

lemma hello_completed: "completed example_env (model_name False) PyTrue hello_turn"
  by (simp add: completed_def hello_turn_def strip_hello hello_not_exit
      hello_result [unfolded hello_turn_def])

lemma why_completed: "completed example_env (model_name False) PyTrue why_turn"
  by (simp add: completed_def why_turn_def strip_why why_not_exit
      why_result [unfolded why_turn_def])

lemma hello_pair:
  "pair_of example_env (model_name False) PyTrue hello_turn =
     [(User, lit ''hello''), (Assistant, lit ''Hi!'')]"
  by (simp add: pair_of_def user_message_def assistant_message_def hello_result strip_hello)
     (simp add: hello_turn_def strip_hello)

lemma why_pair:
  "pair_of example_env (model_name False) PyTrue why_turn =
     [(User, lit ''Why?''), (Assistant, lit ''Because.'')]"
  by (simp add: pair_of_def user_message_def assistant_message_def why_result)
     (simp add: why_turn_def strip_why)

lemma hello_input: "\<not> is_exit_input hello_turn"
  by (simp add: is_exit_input_def hello_turn_def strip_hello hello_not_exit)

lemma exit_input: "is_exit_input exit_turn"
  by (simp add: is_exit_input_def exit_turn_def strip_def lower_def lit_def isspace_def
      exit_keywords_def)

lemma hello_continues:
  "fst (chat_turn example_env (model_name False) PyTrue hello_turn s) = Continue"
proof -
  obtain messages w where s: "s = (messages, w)" by (cases s)
  show ?thesis
    using chat_turn_completed [OF hello_completed, of messages w] s by auto
qed

lemma interrupt_continues: "fst (chat_turn e model strm interrupt_turn s) = Continue"
proof -
  obtain messages w where s: "s = (messages, w)" by (cases s)
  show ?thesis
    unfolding s by (simp add: chat_turn_input_raises interrupt_turn_def)
qed

text \<open>The parser and the \<^verbatim>\<open>-s\<close> option.\<close>

lemma foldl_set_opt_last_stream:
  "\<forall>u. OptStream u \<notin> set post \<Longrightarrow>
   arg_stream (foldl set_opt a (pre @ OptStream v # post)) = PyStr v"
  by (simp add: foldl_set_opt_stream)

lemma set_opt_arg_stream_update:
  "\<not> is_stream_opt y \<Longrightarrow>
   set_opt (b\<lparr>arg_stream := s\<rparr>) y = (set_opt b y)\<lparr>arg_stream := s\<rparr>"
proof (cases y)
  case (OptQuery q)
  then show ?thesis by (cases q) simp_all
qed simp_all

lemma foldl_set_opt_arg_stream_update:
  "\<forall>y\<in>set ys. \<not> is_stream_opt y \<Longrightarrow>
   (foldl set_opt (b\<lparr>arg_stream := s\<rparr>) ys)\<lparr>arg_stream := s'\<rparr> =
   (foldl set_opt b ys)\<lparr>arg_stream := s'\<rparr>"
proof (induction ys arbitrary: b)
  case Nil
  show ?case by simp
next
  case (Cons y ys)
  then have n: "\<not> is_stream_opt y" and r: "\<forall>y\<in>set ys. \<not> is_stream_opt y" by simp_all
  show ?case
    using Cons.IH [OF r, of "set_opt b y"] by (simp add: set_opt_arg_stream_update [OF n])
qed

lemma foldl_set_opt_without_stream:
  "foldl set_opt a opts =
   (foldl set_opt a (without_stream opts))\<lparr>arg_stream := arg_stream (foldl set_opt a opts)\<rparr>"
proof (induction opts arbitrary: a)
  case Nil
  show ?case by (simp add: without_stream_def)
next
  case (Cons x opts)
  have ih: "foldl set_opt (set_opt a x) opts =
        (foldl set_opt (set_opt a x) (without_stream opts))
          \<lparr>arg_stream := arg_stream (foldl set_opt (set_opt a x) opts)\<rparr>"
    by (rule Cons.IH)
  show ?case
  proof (cases "is_stream_opt x")
    case False
    then show ?thesis using ih by (simp add: without_stream_def)
  next
    case True
    then obtain v where x: "x = OptStream v" by (cases x) simp_all
    have "(foldl set_opt (a\<lparr>arg_stream := PyStr v\<rparr>) (without_stream opts))
            \<lparr>arg_stream := arg_stream (foldl set_opt (set_opt a x) opts)\<rparr> =
          (foldl set_opt a (without_stream opts))
            \<lparr>arg_stream := arg_stream (foldl set_opt (set_opt a x) opts)\<rparr>"
      by (rule foldl_set_opt_arg_stream_update) (simp add: without_stream_def)
    then show ?thesis using ih x by (simp add: without_stream_def)
  qed
qed

lemma parse_args_without_stream:
  "parse_args opts =
   (parse_args (without_stream opts))\<lparr>arg_stream := arg_stream (parse_args opts)\<rparr>"
  unfolding parse_args_def by (rule foldl_set_opt_without_stream)

lemma without_stream_free: "OptStream v \<notin> set (without_stream opts)"
  by (simp add: without_stream_def)

lemma parse_args_without_stream_default:
  "arg_stream (parse_args (without_stream opts)) = PyTrue"
  using foldl_set_opt_stream [of "without_stream opts" default_args]
  by (simp add: without_stream_free parse_args_def default_args_def)

lemma truthy_iff: "truthy s \<longleftrightarrow> s \<noteq> PyStr []"
  by (cases s) simp_all

text \<open>
  Two flags with the same truth value give runs that differ in nothing that can be
  observed, step by step through the program.
\<close>

lemma observable_print_out:
  "observable w1 = observable w2 \<Longrightarrow> observable (print_out s w1) = observable (print_out s w2)"
  by (simp add: observable_def print_out_def)

lemma observable_print_err:
  "observable w1 = observable w2 \<Longrightarrow> observable (print_err s w1) = observable (print_err s w2)"
  by (simp add: observable_def print_err_def)

lemma observable_show_prompt:
  "observable w1 = observable w2 \<Longrightarrow>
   observable (show_prompt p w1) = observable (show_prompt p w2)"
  by (simp add: observable_def show_prompt_def)

lemma observable_display:
  "observable w1 = observable w2 \<Longrightarrow>
   observable (display_markdown_with_rich s w1) = observable (display_markdown_with_rich s w2)"
  by (simp add: observable_def display_markdown_with_rich_def)

lemma observable_print_separator:
  assumes "observable w1 = observable w2"
  shows "fst (print_separator e w1) = fst (print_separator e w2) \<and>
         observable (snd (print_separator e w1)) = observable (snd (print_separator e w2))"
  using assms
  by (cases "terminal_size e") (simp_all add: print_separator_def observable_def print_out_def)

lemma separator_case:
  "(case p of (Inl x, w') \<Rightarrow> (Inl x, w') | (Inr u, w') \<Rightarrow> (Inr v, w')) =
   (case fst p of Inl x \<Rightarrow> Inl x | Inr u \<Rightarrow> Inr v, snd p)"
  by (cases p; cases "fst p") auto

lemma observable_stream_branch:
  assumes "observable w1 = observable w2"
  shows "fst (stream_branch e r w1) = fst (stream_branch e r w2) \<and>
         observable (snd (stream_branch e r w1)) = observable (snd (stream_branch e r w2))"
proof (cases r)
  case (Completion cs)
  then show ?thesis using assms by (simp add: stream_branch_def)
next
  case (Stream chunks ending)
  show ?thesis
  proof (cases ending)
    case (Some x)
    then show ?thesis using assms Stream by (simp add: stream_branch_def)
  next
    case None
    then show ?thesis
      using Stream
        observable_print_separator [OF observable_display [OF assms], of e "accumulate chunks []"]
      by (simp add: stream_branch_def separator_case Let_def)
  qed
qed

lemma observable_single_branch:
  assumes "observable w1 = observable w2"
  shows "fst (single_branch e r w1) = fst (single_branch e r w2) \<and>
         observable (snd (single_branch e r w1)) = observable (snd (single_branch e r w2))"
proof (cases r)
  case (Stream chunks ending)
  then show ?thesis using assms by (simp add: single_branch_def)
next
  case (Completion cs)
  show ?thesis
  proof (cases cs)
    case Nil
    then show ?thesis using assms Completion by (simp add: single_branch_def)
  next
    case (Cons c rest)
    then show ?thesis
      using Completion
        observable_print_separator [OF observable_print_out [OF assms], of e "lit ''    '' @ c"]
      by (simp add: single_branch_def separator_case)
  qed
qed

lemma observable_print_response:
  assumes "truthy s1 = truthy s2" and "observable w1 = observable w2"
  shows "fst (print_response e r m s1 w1) = fst (print_response e r m s2 w2) \<and>
         observable (snd (print_response e r m s1 w1)) =
         observable (snd (print_response e r m s2 w2))"
  using assms(1)
    observable_stream_branch [OF observable_print_out [OF assms(2)], of e r "model_header m"]
    observable_single_branch [OF observable_print_out [OF assms(2)], of e r "model_header m"]
  by (simp add: print_response_def Let_def)

lemma observable_call_deepseek:
  assumes "observable w1 = observable w2"
  shows "fst (call_deepseek e outcome messages m s1 w1) =
         fst (call_deepseek e outcome messages m s2 w2) \<and>
         observable (snd (call_deepseek e outcome messages m s1 w1)) =
         observable (snd (call_deepseek e outcome messages m s2 w2))"
  using assms
  by (simp add: call_deepseek_def get_client_def observable_def print_err_def)

lemma observable_handle_exn:
  assumes "observable w1 = observable w2"
  shows "fst (handle_exn x w1) = fst (handle_exn x w2) \<and>
         observable (snd (handle_exn x w1)) = observable (snd (handle_exn x w2))"
  using assms
  by (cases x) (simp_all add: observable_def print_out_def print_err_def)

lemma observable_query_mode:
  assumes "truthy s1 = truthy s2" and "observable w1 = observable w2"
  shows "fst (query_mode e outcome q c img deep s1 w1) =
         fst (query_mode e outcome q c img deep s2 w2) \<and>
         observable (snd (query_mode e outcome q c img deep s1 w1)) =
         observable (snd (query_mode e outcome q c img deep s2 w2))"
proof -
  let ?msgs = "[(User, query_prompt q c img)]"
  obtain r u1 where c1: "call_deepseek e outcome ?msgs (model_name deep) s1 w1 = (r, u1)"
    by (cases "call_deepseek e outcome ?msgs (model_name deep) s1 w1")
  obtain r2 u2 where c2': "call_deepseek e outcome ?msgs (model_name deep) s2 w2 = (r2, u2)"
    by (cases "call_deepseek e outcome ?msgs (model_name deep) s2 w2")
  have "r2 = r" and u: "observable u1 = observable u2"
    using observable_call_deepseek [OF assms(2), of e outcome ?msgs "model_name deep" s1 s2]
      c1 c2' by simp_all
  then have c2: "call_deepseek e outcome ?msgs (model_name deep) s2 w2 = (r, u2)"
    using c2' by simp
  show ?thesis
  proof (cases r)
    case (Inl x)
    show ?thesis unfolding query_mode_def Let_def c1 c2 Inl using u by simp
  next
    case (Inr response)
    obtain p v1 where p1: "print_response e response (model_name deep) s1 u1 = (p, v1)"
      by (cases "print_response e response (model_name deep) s1 u1")
    obtain p2 v2 where p2': "print_response e response (model_name deep) s2 u2 = (p2, v2)"
      by (cases "print_response e response (model_name deep) s2 u2")
    have "p2 = p" and v: "observable v1 = observable v2"
      using observable_print_response [OF assms(1) u, of e response "model_name deep"] p1 p2'
      by simp_all
    then have p2: "print_response e response (model_name deep) s2 u2 = (p, v2)"
      using p2' by simp
    show ?thesis unfolding query_mode_def Let_def c1 c2 Inr using v
      by (cases p) (simp_all add: p1 p2)
  qed
qed

lemma observable_chat_turn:
  assumes "truthy s1 = truthy s2" and "observable w1 = observable w2"
  shows "fst (chat_turn e model s1 t (msgs, w1)) = fst (chat_turn e model s2 t (msgs, w2)) \<and>
         fst (snd (chat_turn e model s1 t (msgs, w1))) =
         fst (snd (chat_turn e model s2 t (msgs, w2))) \<and>
         observable (snd (snd (chat_turn e model s1 t (msgs, w1)))) =
         observable (snd (snd (chat_turn e model s2 t (msgs, w2))))"
proof -
  have w0: "observable (show_prompt user_prompt w1) = observable (show_prompt user_prompt w2)"
    using assms(2) by (rule observable_show_prompt)
  show ?thesis
  proof (cases "user_line t")
    case (Inl x)
    then show ?thesis using observable_handle_exn [OF w0, of x]
      by (simp add: chat_turn_input_raises)
  next
    case (Inr line)
    show ?thesis
    proof (cases "lower (strip line) \<in> set exit_keywords")
      case True
      then have "is_exit_input t" using Inr by (simp add: is_exit_input_def)
      then show ?thesis using w0 by (simp add: chat_turn_exit)
    next
      case False
      let ?m1 = "msgs @ [(User, strip line)]"
      note send = chat_turn_send [OF Inr False]
      obtain r u1 where c1: "call_deepseek e (api_outcome t) ?m1 model s1
            (show_prompt user_prompt w1) = (r, u1)"
        by (cases "call_deepseek e (api_outcome t) ?m1 model s1 (show_prompt user_prompt w1)")
      obtain r2 u2 where c2': "call_deepseek e (api_outcome t) ?m1 model s2
            (show_prompt user_prompt w2) = (r2, u2)"
        by (cases "call_deepseek e (api_outcome t) ?m1 model s2 (show_prompt user_prompt w2)")
      have "r2 = r" and u: "observable u1 = observable u2"
        using observable_call_deepseek [OF w0, of e "api_outcome t" ?m1 model s1 s2] c1 c2'
        by simp_all
      then have c2: "call_deepseek e (api_outcome t) ?m1 model s2
            (show_prompt user_prompt w2) = (r, u2)"
        using c2' by simp
      show ?thesis
      proof (cases r)
        case (Inl x)
        show ?thesis
          unfolding send c1 c2 Inl using observable_handle_exn [OF u, of x] by simp
      next
        case response: (Inr response)
        obtain p v1 where p1: "print_response e response model s1 u1 = (p, v1)"
          by (cases "print_response e response model s1 u1")
        obtain p2 v2 where p2': "print_response e response model s2 u2 = (p2, v2)"
          by (cases "print_response e response model s2 u2")
        have "p2 = p" and v: "observable v1 = observable v2"
          using observable_print_response [OF assms(1) u, of e response model] p1 p2'
          by simp_all
        then have p2: "print_response e response model s2 u2 = (p, v2)"
          using p2' by simp
        show ?thesis
        proof (cases p)
          case (Inl x)
          show ?thesis
            unfolding send c1 c2 response using observable_handle_exn [OF v, of x]
            by (simp add: p1 p2 Inl)
        next
          case reply: (Inr reply)
          show ?thesis
            unfolding send c1 c2 response using v by (simp add: p1 p2 reply)
        qed
      qed
    qed
  qed
qed

lemma observable_chat_loop:
  assumes "truthy s1 = truthy s2" and "observable w1 = observable w2"
  shows "fst (chat_loop e model s1 ts (msgs, w1)) = fst (chat_loop e model s2 ts (msgs, w2)) \<and>
         observable (snd (snd (chat_loop e model s1 ts (msgs, w1)))) =
         observable (snd (snd (chat_loop e model s2 ts (msgs, w2))))"
  using assms(2)
proof (induction ts arbitrary: msgs w1 w2)
  case Nil
  then show ?case by (simp add: observable_def show_prompt_def)
next
  case (Cons t ts)
  obtain c1 m1 u1 where t1: "chat_turn e model s1 t (msgs, w1) = (c1, m1, u1)"
    by (cases "chat_turn e model s1 t (msgs, w1)")
  obtain c2 m2 u2 where t2: "chat_turn e model s2 t (msgs, w2) = (c2, m2, u2)"
    by (cases "chat_turn e model s2 t (msgs, w2)")
  have c: "c1 = c2" and m: "m1 = m2" and u: "observable u1 = observable u2"
    using observable_chat_turn [OF assms(1) Cons.prems, of e model t msgs] t1 t2 by simp_all
  show ?case
  proof (cases c1)
    case Continue
    then show ?thesis using t1 t2 c m Cons.IH [OF u, of m2] by simp
  next
    case Break
    then show ?thesis using t1 t2 c m u by simp
  next
    case (Propagate x)
    then show ?thesis using t1 t2 c m u by simp
  qed
qed

lemma observable_chat_mode:
  assumes "truthy s1 = truthy s2"
  shows "fst (chat_mode e deep s1 ts w) = fst (chat_mode e deep s2 ts w) \<and>
         observable (snd (snd (chat_mode e deep s1 ts w))) =
         observable (snd (snd (chat_mode e deep s2 ts w)))"
  using observable_chat_loop [OF assms refl, of e "model_name deep" ts
      "[(System, system_prompt)]"
      "print_out (lit ''--------------------------------------'') (print_out chat_banner w)"]
  by (simp add: chat_mode_def)

text \<open>The paths through \<^verbatim>\<open>main\<close>.\<close>

lemma main_chat:
  "arg_chat (parse_args opts) \<Longrightarrow>
   main e opts outcome ts w =
     (fst (chat_mode e (arg_deep (parse_args opts)) (arg_stream (parse_args opts)) ts w),
      snd (snd (chat_mode e (arg_deep (parse_args opts)) (arg_stream (parse_args opts)) ts w)))"
  by (simp add: main_def Let_def split: prod.splits)

lemma main_query:
  assumes "\<not> arg_chat (parse_args opts)"
    and "read_contents e (parse_args opts) w = (Inr contents, w1)"
    and "arg_query (parse_args opts) = Some q" and "q \<noteq> []"
  shows "main e opts outcome ts w =
     (case fst (query_mode e outcome q contents (arg_image (parse_args opts))
                  (arg_deep (parse_args opts)) (arg_stream (parse_args opts)) w1) of
        Inl x \<Rightarrow> Raised x
      | Inr _ \<Rightarrow> Returned,
      snd (query_mode e outcome q contents (arg_image (parse_args opts))
             (arg_deep (parse_args opts)) (arg_stream (parse_args opts)) w1))"
  using assms by (simp add: main_def Let_def split: prod.splits sum.splits)

lemma main_no_query:
  assumes "\<not> arg_chat (parse_args opts)"
    and "read_contents e (parse_args opts) w = (Inr contents, w1)"
    and "\<not> truthy_opt (arg_query (parse_args opts))"
  shows "main e opts outcome ts w = (Returned, w1)"
  using assms by (simp add: main_def Let_def)

lemma main_no_contents:
  assumes "\<not> arg_chat (parse_args opts)"
    and "read_contents e (parse_args opts) w = (Inl x, w1)"
  shows "main e opts outcome ts w = (Raised x, w1)"
  using assms by (simp add: main_def Let_def)

lemma observable_main:
  assumes "arg_stream (parse_args opts) \<noteq> PyStr []"
  shows "fst (main e opts outcome ts w) = fst (main e (without_stream opts) outcome ts w) \<and>
         observable (snd (main e opts outcome ts w)) =
         observable (snd (main e (without_stream opts) outcome ts w))"
proof -
  let ?a = "parse_args opts"
  let ?b = "parse_args (without_stream opts)"
  have ab: "?a = ?b\<lparr>arg_stream := arg_stream ?a\<rparr>"
    by (rule parse_args_without_stream)
  have chat: "arg_chat ?a = arg_chat ?b" and deep: "arg_deep ?a = arg_deep ?b"
    and img: "arg_image ?a = arg_image ?b" and query: "arg_query ?a = arg_query ?b"
    using arg_cong [OF ab, of arg_chat] arg_cong [OF ab, of arg_deep]
      arg_cong [OF ab, of arg_image] arg_cong [OF ab, of arg_query]
    by simp_all
  have strm: "truthy (arg_stream ?a) = truthy (arg_stream ?b)"
    using assms by (cases "arg_stream ?a") (simp_all add: parse_args_without_stream_default)
  have rc: "read_contents e ?a w = read_contents e ?b w"
    by (simp add: read_contents_def img)
  show ?thesis
  proof (cases "arg_chat ?a")
    case True
    then have "arg_chat ?b" using chat by simp
    then show ?thesis
      using True observable_chat_mode [OF strm, of e "arg_deep ?b" ts w]
      by (simp add: main_chat deep)
  next
    case False
    then have nb: "\<not> arg_chat ?b" using chat by simp
    obtain r w1 where r: "read_contents e ?b w = (r, w1)"
      by (cases "read_contents e ?b w")
    then have ra: "read_contents e ?a w = (r, w1)" using rc by simp
    show ?thesis
    proof (cases r)
      case (Inl x)
      then show ?thesis
        using main_no_contents [OF False, of e w x w1] main_no_contents [OF nb, of e w x w1]
          r ra by simp
    next
      case (Inr contents)
      show ?thesis
      proof (cases "truthy_opt (arg_query ?a)")
        case no: False
        then have "\<not> truthy_opt (arg_query ?b)" using query by simp
        then show ?thesis
          using main_no_query [OF False, of e w contents w1] no
            main_no_query [OF nb, of e w contents w1] r ra Inr by simp
      next
        case yes: True
        then obtain q where q: "arg_query ?a = Some q" and n: "q \<noteq> []"
          by (cases "arg_query ?a") simp_all
        then have qb: "arg_query ?b = Some q" using query by simp
        have ma: "main e opts outcome ts w =
            (case fst (query_mode e outcome q contents (arg_image ?a) (arg_deep ?a)
                         (arg_stream ?a) w1) of Inl x \<Rightarrow> Raised x | Inr _ \<Rightarrow> Returned,
             snd (query_mode e outcome q contents (arg_image ?a) (arg_deep ?a)
                    (arg_stream ?a) w1))"
          using ra Inr by (intro main_query [OF False _ q n]) simp
        have mb: "main e (without_stream opts) outcome ts w =
            (case fst (query_mode e outcome q contents (arg_image ?b) (arg_deep ?b)
                         (arg_stream ?b) w1) of Inl x \<Rightarrow> Raised x | Inr _ \<Rightarrow> Returned,
             snd (query_mode e outcome q contents (arg_image ?b) (arg_deep ?b)
                    (arg_stream ?b) w1))"
          using r Inr by (intro main_query [OF nb _ qb n]) simp
        show ?thesis
          unfolding ma mb
          using observable_query_mode [OF strm refl, of e outcome q contents "arg_image ?b"
              "arg_deep ?b" w1]
          by (simp add: img deep)
      qed
    qed
  qed
qed

lemma main_query_branch:
  assumes "\<not> arg_chat (parse_args opts)"
    and "arg_query (parse_args opts) = Some q" and "q \<noteq> []"
    and "read_contents e (parse_args opts) w = (Inr contents, w1)"
    and "truthy_opt (api_key e)"
  shows "main e opts (Inr response) ts w =
     (let a = parse_args opts;
          model = model_name (arg_deep a);
          wq = w1\<lparr>requests := requests w1 @
                 [\<lparr>req_model = model,
                   req_messages = [(User, query_prompt q contents (arg_image a))],
                   req_stream = arg_stream a\<rparr>]\<rparr>;
          wh = print_out (model_header model) wq
      in case (if arg_stream a = PyStr [] then single_branch e response wh
               else stream_branch e response wh) of
           (Inl x, w2) \<Rightarrow> (Raised x, w2)
         | (Inr _, w2) \<Rightarrow> (Returned, w2))"
  unfolding main_query [OF assms(1,4,2,3)]
  by (simp add: query_mode_def call_deepseek_with_key [OF assms(5)] print_response_def
      truthy_iff Let_def split: prod.splits sum.splits)

lemma main_chat_branch:
  assumes "arg_chat (parse_args opts)" and "truthy_opt (api_key e)"
    and "user_line t = Inr line" and "lower (strip line) \<notin> set exit_keywords"
    and "api_outcome t = Inr response"
  shows "main e opts outcome [t] w =
     (let a = parse_args opts;
          model = model_name (arg_deep a);
          history = [(System, system_prompt), (User, strip line)];
          w0 = show_prompt user_prompt
                 (print_out (lit ''--------------------------------------'')
                    (print_out chat_banner w));
          wq = w0\<lparr>requests := requests w0 @
                 [\<lparr>req_model = model, req_messages = history,
                   req_stream = arg_stream a\<rparr>]\<rparr>;
          wh = print_out (model_header model) wq
      in case (if arg_stream a = PyStr [] then single_branch e response wh
               else stream_branch e response wh) of
           (Inl x, w2) \<Rightarrow>
             (case handle_exn x w2 of
                (Continue, w3) \<Rightarrow> (Blocked, show_prompt user_prompt w3)
              | (Break, w3) \<Rightarrow> (Returned, w3)
              | (Propagate y, w3) \<Rightarrow> (Raised y, w3))
         | (Inr reply, w2) \<Rightarrow> (Blocked, show_prompt user_prompt w2))"
  unfolding main_chat [OF assms(1)]
  by (simp add: chat_mode_def chat_turn_send [OF assms(3,4)] assms(5)
      call_deepseek_with_key [OF assms(2)] print_response_def truthy_iff Let_def
      split: prod.splits sum.splits ctl.splits)

section \<open>Single-shot query mode\<close>

text \<open>
  C1, as stated: with empty context the prompt sent to the inference client equals the raw
  query, with no wrapping of any kind. This fails: \<^verbatim>\<open>query_mode\<close> puts the fixed
  \<^verbatim>\<open>professional_prompt\<close> in front of every prompt (line 85), so for the query \<^verbatim>\<open>hi\<close> the
  message sent is that preamble followed by \<^verbatim>\<open>hi\<close>.
\<close>

theorem query_mode_raw_query_counterexample:
  "map req_messages (requests (snd (query_mode example_env (Inr (Stream [] None)) (lit ''hi'')
      (Some []) False False PyTrue world0))) = [[(User, professional_prompt @ lit ''hi'')]] \<and>
   professional_prompt @ lit ''hi'' \<noteq> lit ''hi''"
  using query_mode_requests [of example_env "Inr (Stream [] None)" "lit ''hi''" "Some []"
      False False PyTrue world0]
  by (simp add: example_env_def query_prompt_def world0_def professional_prompt_nonempty lit_def)

text \<open>
  C1, amended: with empty context the prompt is the fixed preamble immediately followed by
  the raw query, with neither of the two context templates around it; when the credential
  is set, that prompt is the content of the single user message of the one request sent.
\<close>

theorem query_mode_empty_context_prompt:
  "query_prompt query (Some []) img = professional_prompt @ query \<and>
   (truthy_opt (api_key e) \<longrightarrow>
      requests (snd (query_mode e outcome query (Some []) img deep strm w)) =
        requests w @ [\<lparr>req_model = model_name deep,
                       req_messages = [(User, professional_prompt @ query)],
                       req_stream = strm\<rparr>])"
  using query_mode_requests [of e outcome query "Some []" img deep strm w]
  by (simp add: query_prompt_def)

theorem query_mode_empty_context_prompt_witness:
  "truthy_opt (api_key example_env) \<and>
   requests (snd (query_mode example_env (Inr (Stream [] None)) (lit ''hi'') (Some []) False
      False PyTrue world0)) =
     [\<lparr>req_model = model_name False,
       req_messages = [(User, professional_prompt @ lit ''hi'')],
       req_stream = PyTrue\<rparr>]"
  using query_mode_empty_context_prompt [of "lit ''hi''" False example_env
      "Inr (Stream [] None)" False PyTrue world0]
  by (simp add: example_env_def world0_def lit_def)

text \<open>
  C9: with non-empty context the prompt contains the phrase
  \<^verbatim>\<open>Please answer the question based on this text\<close> followed by the content and the
  question when the context is piped text, and the phrase
  \<^verbatim>\<open>This is ocr result of the image\<close> when the context comes from OCR.
\<close>

theorem query_prompt_context_phrases:
  assumes "c \<noteq> []"
  shows "query_prompt q (Some c) False =
           professional_prompt @ lit ''Please answer the question based on this text'' @
           lit '':'' @ [nl, nl] @ c @ [nl, nl] @ lit ''Question:'' @ q \<and>
         query_prompt q (Some c) True =
           professional_prompt @ lit ''This is ocr result of the image'' @
           lit '':'' @ [nl, nl] @ c @ [nl, nl] @ lit ''Question:'' @ q \<and>
         sublist (lit ''Please answer the question based on this text'')
           (query_prompt q (Some c) False) \<and>
         sublist (lit ''This is ocr result of the image'') (query_prompt q (Some c) True) \<and>
         (truthy_opt (api_key e) \<longrightarrow>
            map req_messages
              (requests (snd (query_mode e outcome q (Some c) img deep strm w))) =
            map req_messages (requests w) @ [[(User, query_prompt q (Some c) img)]])"
proof -
  have t: "lit ''Please answer the question based on this text:'' =
           lit ''Please answer the question based on this text'' @ lit '':''"
    by (simp add: lit_def)
  have i: "lit ''This is ocr result of the image:'' =
           lit ''This is ocr result of the image'' @ lit '':''"
    by (simp add: lit_def)
  have 1: "query_prompt q (Some c) False =
           professional_prompt @ lit ''Please answer the question based on this text'' @
           lit '':'' @ [nl, nl] @ c @ [nl, nl] @ lit ''Question:'' @ q"
    using assms by (simp add: query_prompt_def t)
  have 2: "query_prompt q (Some c) True =
           professional_prompt @ lit ''This is ocr result of the image'' @
           lit '':'' @ [nl, nl] @ c @ [nl, nl] @ lit ''Question:'' @ q"
    using assms by (simp add: query_prompt_def i)
  have 3: "sublist (lit ''Please answer the question based on this text'')
           (query_prompt q (Some c) False)"
    unfolding 1 by (rule sublist_appendI)
  have 4: "sublist (lit ''This is ocr result of the image'') (query_prompt q (Some c) True)"
    unfolding 2 by (rule sublist_appendI)
  have 5: "map req_messages
              (requests (snd (query_mode e outcome q (Some c) img deep strm w))) =
            map req_messages (requests w) @ [[(User, query_prompt q (Some c) img)]]"
    if "truthy_opt (api_key e)"
    using query_mode_requests [OF that, of outcome q "Some c" img deep strm w] by simp
  from 1 2 3 4 5 show ?thesis by simp
qed

theorem query_prompt_context_phrases_witness:
  "lit ''doc'' \<noteq> [] \<and>
   query_prompt (lit ''why'') (Some (lit ''doc'')) False =
     professional_prompt @ lit ''Please answer the question based on this text'' @
     lit '':'' @ [nl, nl] @ lit ''doc'' @ [nl, nl] @ lit ''Question:'' @ lit ''why''"
  using query_prompt_context_phrases [of "lit ''doc''" "lit ''why''"]
  by (simp add: lit_def)

section \<open>OCR adapter and command line\<close>

text \<open>
  C2 asks that an OCR failure is reported on the error stream, that no exception escapes,
  and that empty context reaches the prompt builder. The first two hold. The third does
  not: \<^verbatim>\<open>ocr\<close> returns \<^verbatim>\<open>None\<close>, which \<^verbatim>\<open>query_mode\<close> compares with the empty string and
  so takes for context. With an image on which the engine raises and the query \<^verbatim>\<open>hi\<close>,
  the prompt sent carries the OCR template around the word \<^verbatim>\<open>None\<close>.
\<close>

theorem ocr_failure_reaches_prompt_as_None:
  "ocr failing_ocr_env (stdin_buffer failing_ocr_env) world0 =
     (Inr None, world0\<lparr>stderr := [ocr_error_prefix @ lit ''bad image'']\<rparr>) \<and>
   main failing_ocr_env [OptImage, OptQuery (Some (lit ''hi''))] (Inr (Stream [] None)) []
     world0 =
     (Returned,
      \<lparr>stdout = [Print (model_header (lit ''deepseek-chat'')), Rich [], Print (replicate 4 61)],
       stderr = [ocr_error_prefix @ lit ''bad image''],
       requests =
         [\<lparr>req_model = lit ''deepseek-chat'',
           req_messages =
             [(User, professional_prompt @ lit ''This is ocr result of the image:'' @ [nl, nl] @
                     lit ''None'' @ [nl, nl] @ lit ''Question:'' @ lit ''hi'')],
           req_stream = PyTrue\<rparr>]\<rparr>)"
proof -
  have k: "truthy_opt (api_key failing_ocr_env)"
    by (simp add: failing_ocr_env_def example_env_def lit_def)
  have o: "ocr failing_ocr_env (stdin_buffer failing_ocr_env) world0 =
     (Inr None, world0\<lparr>stderr := [ocr_error_prefix @ lit ''bad image'']\<rparr>)"
    by (simp add: ocr_def failing_ocr_env_def example_env_def print_err_def world0_def)
  have a: "parse_args [OptImage, OptQuery (Some (lit ''hi''))] =
     \<lparr>arg_query = Some (lit ''hi''), arg_image = True, arg_deep = False, arg_chat = False,
      arg_stream = PyTrue\<rparr>"
    by (simp add: parse_args_def default_args_def)
  have r: "read_contents failing_ocr_env
       (parse_args [OptImage, OptQuery (Some (lit ''hi''))]) world0 =
     (Inr None, world0\<lparr>stderr := [ocr_error_prefix @ lit ''bad image'']\<rparr>)"
    unfolding a using o by (simp add: read_contents_def failing_ocr_env_def example_env_def)
  have p: "query_prompt (lit ''hi'') None True =
     professional_prompt @ lit ''This is ocr result of the image:'' @ [nl, nl] @
     lit ''None'' @ [nl, nl] @ lit ''Question:'' @ lit ''hi''"
    by (simp add: query_prompt_def)
  have t: "terminal_size failing_ocr_env = Inr 4"
    by (simp add: failing_ocr_env_def example_env_def)
  have h: "truthy_opt (Some (lit ''hi''))"
    by (simp add: lit_def)
  have q: "query_mode failing_ocr_env (Inr (Stream [] None)) (lit ''hi'') None True False PyTrue
       (world0\<lparr>stderr := [ocr_error_prefix @ lit ''bad image'']\<rparr>) =
     (Inr (),
      \<lparr>stdout = [Print (model_header (lit ''deepseek-chat'')), Rich [], Print (replicate 4 61)],
       stderr = [ocr_error_prefix @ lit ''bad image''],
       requests =
         [\<lparr>req_model = lit ''deepseek-chat'',
           req_messages =
             [(User, professional_prompt @ lit ''This is ocr result of the image:'' @ [nl, nl] @
                     lit ''None'' @ [nl, nl] @ lit ''Question:'' @ lit ''hi'')],
           req_stream = PyTrue\<rparr>]\<rparr>)"
    by (simp add: query_mode_def call_deepseek_with_key [OF k] p model_name_def
        print_response_def stream_branch_def print_separator_def t print_out_def
        display_markdown_with_rich_def world0_def Let_def)
  show ?thesis
    using o r q h by (simp add: main_def a)
qed

text \<open>
  C3 asks that \<^verbatim>\<open>--query\<close> with an empty value ends the process with a diagnostic. The
  check that prints the diagnostic and exits sits inside \<^verbatim>\<open>if args.query:\<close>, which an
  empty value does not enter: \<^verbatim>\<open>main\<close> returns normally with nothing written, both for
  \<^verbatim>\<open>-q\<close> without a value and for \<^verbatim>\<open>-q\<close> with an empty one.
\<close>

theorem empty_query_is_silently_ignored:
  "main example_env [OptQuery None] (Inr (Stream [] None)) [] world0 = (Returned, world0) \<and>
   main example_env [OptQuery (Some [])] (Inr (Stream [] None)) [] world0 = (Returned, world0)"
  by (simp add: main_def parse_args_def default_args_def read_contents_def example_env_def)

section \<open>Inference client\<close>

text \<open>
  C5: without the credential (unset, or empty) \<^verbatim>\<open>call_deepseek\<close> raises
  \<^verbatim>\<open>SystemExit(1)\<close> after one line on the error stream and before any request is sent.
  Nothing catches it: single-shot mode and \<^verbatim>\<open>main\<close> pass it on, and so does the chat
  loop at the first input that is not an exit keyword. It is the only \<^verbatim>\<open>SystemExit\<close>
  that \<^verbatim>\<open>call_deepseek\<close> raises of its own.
\<close>

theorem missing_credential_is_fatal:
  assumes "\<not> truthy_opt (api_key e)"
  shows "call_deepseek e outcome messages model strm w =
           (Inl (SystemExit 1), w\<lparr>stderr := stderr w @ [lit ''Failed to find API key.'']\<rparr>) \<and>
         query_mode e outcome query contents img deep strm w =
           (Inl (SystemExit 1), w\<lparr>stderr := stderr w @ [lit ''Failed to find API key.'']\<rparr>) \<and>
         (\<not> arg_chat (parse_args opts) \<and> truthy_opt (arg_query (parse_args opts)) \<and>
          read_contents e (parse_args opts) w = (Inr contents, w1) \<longrightarrow>
            main e opts outcome ts w =
              (Raised (SystemExit 1),
               w1\<lparr>stderr := stderr w1 @ [lit ''Failed to find API key.'']\<rparr>)) \<and>
         (user_line t = Inr line \<and> lower (strip line) \<notin> set exit_keywords \<longrightarrow>
            chat_mode e deep strm (t # ts) w =
              (Raised (SystemExit 1), [(System, system_prompt), (User, strip line)],
               w\<lparr>stdout := stdout w @
                     [Print chat_banner, Print (lit ''--------------------------------------''),
                      Prompt user_prompt],
                  stderr := stderr w @ [lit ''Failed to find API key.'']\<rparr>)) \<and>
         (\<forall>e' n. fst (call_deepseek e' outcome messages model strm w) = Inl (SystemExit n) \<longrightarrow>
            (\<not> truthy_opt (api_key e') \<and> n = 1) \<or> outcome = Inl (SystemExit n))"
proof -
  have c: "call_deepseek e outcome messages model strm w =
           (Inl (SystemExit 1), w\<lparr>stderr := stderr w @ [lit ''Failed to find API key.'']\<rparr>)"
    for outcome messages model strm w
    using assms by (simp add: call_deepseek_without_key print_err_def)
  have q: "query_mode e outcome query contents img deep strm w =
           (Inl (SystemExit 1), w\<lparr>stderr := stderr w @ [lit ''Failed to find API key.'']\<rparr>)"
    for query contents img deep strm w
    by (simp add: query_mode_def c)
  have m: "main e opts outcome ts w =
              (Raised (SystemExit 1),
               w1\<lparr>stderr := stderr w1 @ [lit ''Failed to find API key.'']\<rparr>)"
    if "\<not> arg_chat (parse_args opts)" "truthy_opt (arg_query (parse_args opts))"
       "read_contents e (parse_args opts) w = (Inr contents, w1)"
    using that by (simp add: main_def q Let_def)
  have l: "chat_mode e deep strm (t # ts) w =
              (Raised (SystemExit 1), [(System, system_prompt), (User, strip line)],
               w\<lparr>stdout := stdout w @
                     [Print chat_banner, Print (lit ''--------------------------------------''),
                      Prompt user_prompt],
                  stderr := stderr w @ [lit ''Failed to find API key.'']\<rparr>)"
    if "user_line t = Inr line" "lower (strip line) \<notin> set exit_keywords"
    using that by (simp add: chat_mode_def chat_turn_send c show_prompt_def print_out_def)
  have o: "(\<not> truthy_opt (api_key e') \<and> n = 1) \<or> outcome = Inl (SystemExit n)"
    if "fst (call_deepseek e' outcome messages model strm w) = Inl (SystemExit n)" for e' n
    using that by (cases "truthy_opt (api_key e')")
      (simp_all add: call_deepseek_with_key call_deepseek_without_key)
  show ?thesis using c q m l o by blast
qed

theorem missing_credential_is_fatal_witness:
  "\<not> truthy_opt (api_key no_key_env) \<and>
   call_deepseek no_key_env (Inr (Stream [] None)) [(User, lit ''hi'')] (lit ''deepseek-chat'')
     PyTrue world0 =
     (Inl (SystemExit 1), world0\<lparr>stderr := [lit ''Failed to find API key.'']\<rparr>) \<and>
   \<not> arg_chat (parse_args [OptQuery (Some (lit ''hi''))]) \<and>
   truthy_opt (arg_query (parse_args [OptQuery (Some (lit ''hi''))])) \<and>
   read_contents no_key_env (parse_args [OptQuery (Some (lit ''hi''))]) world0 =
     (Inr (Some []), world0) \<and>
   main no_key_env [OptQuery (Some (lit ''hi''))] (Inr (Stream [] None)) [] world0 =
     (Raised (SystemExit 1), world0\<lparr>stderr := [lit ''Failed to find API key.'']\<rparr>) \<and>
   user_line hello_turn = Inr (lit ''hello'') \<and>
   lower (strip (lit ''hello'')) \<notin> set exit_keywords \<and>
   chat_mode no_key_env False PyTrue [hello_turn] world0 =
     (Raised (SystemExit 1), [(System, system_prompt), (User, lit ''hello'')],
      \<lparr>stdout = [Print chat_banner, Print (lit ''--------------------------------------''),
                 Prompt user_prompt],
       stderr = [lit ''Failed to find API key.''],
       requests = []\<rparr>)"
proof -
  have k: "\<not> truthy_opt (api_key no_key_env)"
    by (simp add: no_key_env_def)
  have a: "\<not> arg_chat (parse_args [OptQuery (Some (lit ''hi''))]) \<and>
     truthy_opt (arg_query (parse_args [OptQuery (Some (lit ''hi''))]))"
    by (simp add: parse_args_def default_args_def lit_def)
  have r: "read_contents no_key_env (parse_args [OptQuery (Some (lit ''hi''))]) world0 =
     (Inr (Some []), world0)"
    by (simp add: read_contents_def no_key_env_def example_env_def)
  have u: "user_line hello_turn = Inr (lit ''hello'') \<and>
     lower (strip (lit ''hello'')) \<notin> set exit_keywords"
    by (simp add: hello_turn_def strip_hello hello_not_exit)
  show ?thesis
    using k a r u
      missing_credential_is_fatal [OF k, of "Inr (Stream [] None)" "[(User, lit ''hi'')]"
        "lit ''deepseek-chat''" PyTrue world0 "lit ''hi''" "Some []" False False
        "[OptQuery (Some (lit ''hi''))]" world0 "[]" hello_turn "lit ''hello''"]
    by (simp add: world0_def strip_hello)
qed

section \<open>Response renderer\<close>

text \<open>
  C6, as stated: for every non-empty sequence of streamed chunks the accumulated text is
  what the renderer returns to its caller. This fails when standard output is not a
  terminal: \<^verbatim>\<open>os.get_terminal_size\<close> (line 58) raises after the text has been displayed
  and before the \<^verbatim>\<open>return\<close> of line 65, so for the chunks \<^verbatim>\<open>ab\<close>, \<^verbatim>\<open>c\<close> the renderer
  displays \<^verbatim>\<open>abc\<close> and returns nothing.
\<close>

theorem print_response_without_terminal_counterexample:
  "print_response no_terminal_env
     (Stream [Chunk [Some (lit ''ab'')], Chunk [Some (lit ''c'')]] None) (lit ''m'') PyTrue
     world0 =
   (Inl (Exception (lit ''[Errno 25] Inappropriate ioctl for device'')),
    world0\<lparr>stdout := [Print (model_header (lit ''m'')), Rich (lit ''abc'')]\<rparr>)"
  by (simp add: print_response_def stream_branch_def print_separator_def no_terminal_env_def
      example_env_def print_out_def display_markdown_with_rich_def world0_def
      accumulate_concat Let_def lit_def)

text \<open>
  C6, amended: on the streaming branch, for every sequence of chunks that the stream
  delivers in full, the text accumulated and displayed is the concatenation of the chunks'
  texts in delivery order; when the terminal width can be read for the separator line,
  that text is the value returned to the caller, and otherwise the exception of that read
  propagates after the text has been displayed.
\<close>

theorem print_response_streamed_text:
  assumes "truthy strm"
  shows "print_response e (Stream chunks None) model strm w =
     (let full = concat (map chunk_text chunks);
          shown = stdout w @ [Print (model_header model), Rich full]
      in case terminal_size e of
           Inl x \<Rightarrow> (Inl x, w\<lparr>stdout := shown\<rparr>)
         | Inr columns \<Rightarrow> (Inr full, w\<lparr>stdout := shown @ [Print (replicate columns 61)]\<rparr>))"
  using assms
  by (simp add: print_response_def stream_branch_def print_separator_def print_out_def
      display_markdown_with_rich_def accumulate_concat Let_def split: sum.splits)

theorem print_response_streamed_text_witness:
  "truthy PyTrue \<and>
   print_response example_env
     (Stream [Chunk [Some (lit ''ab'')], Chunk [], Chunk [None], Chunk [Some (lit ''c'')]] None)
     (lit ''m'') PyTrue world0 =
   (Inr (lit ''abc''),
    world0\<lparr>stdout := [Print (model_header (lit ''m'')), Rich (lit ''abc''),
                       Print (replicate 4 61)]\<rparr>)"
  using print_response_streamed_text [of PyTrue example_env
      "[Chunk [Some (lit ''ab'')], Chunk [], Chunk [None], Chunk [Some (lit ''c'')]]"
      "lit ''m''" world0]
  by (simp add: example_env_def world0_def lit_def Let_def)

text \<open>
  C10: the value of \<^verbatim>\<open>--stream\<close> is only tested for truth, never parsed. Without the
  option the parsed value is the default \<^verbatim>\<open>True\<close>; with it, wherever it stands on the
  command line, the value is the argument string of its last occurrence. \<^verbatim>\<open>main\<close> hands
  that value on unchanged: in single-shot mode and in chat mode the request carries it as
  given, and the renderer takes the non-streaming branch exactly when it is the empty
  string and the streaming branch otherwise. With any value other than the empty string
  the whole run is the run without the option, in its result, in both output streams and
  in the model and messages of every request.
\<close>

theorem stream_flag_truthiness:
  "((\<forall>u. OptStream u \<notin> set opts) \<longrightarrow> arg_stream (parse_args opts) = PyTrue) \<and>
   ((\<forall>u. OptStream u \<notin> set post) \<longrightarrow>
      arg_stream (parse_args (pre @ OptStream v # post)) = PyStr v) \<and>
   print_response e r m PyTrue w = stream_branch e r (print_out (model_header m) w) \<and>
   print_response e r m (PyStr v) w =
     (if v = [] then single_branch e r (print_out (model_header m) w)
      else stream_branch e r (print_out (model_header m) w)) \<and>
   (\<not> arg_chat (parse_args opts) \<and> arg_query (parse_args opts) = Some q \<and> q \<noteq> [] \<and>
    read_contents e (parse_args opts) w = (Inr contents, w1) \<and> truthy_opt (api_key e) \<longrightarrow>
      main e opts (Inr response) ts w =
        (let a = parse_args opts;
             model = model_name (arg_deep a);
             wq = w1\<lparr>requests := requests w1 @
                    [\<lparr>req_model = model,
                      req_messages = [(User, query_prompt q contents (arg_image a))],
                      req_stream = arg_stream a\<rparr>]\<rparr>;
             wh = print_out (model_header model) wq
         in case (if arg_stream a = PyStr [] then single_branch e response wh
                  else stream_branch e response wh) of
              (Inl x, w2) \<Rightarrow> (Raised x, w2)
            | (Inr _, w2) \<Rightarrow> (Returned, w2))) \<and>
   (arg_chat (parse_args opts) \<and> truthy_opt (api_key e) \<and> user_line t = Inr line \<and>
    lower (strip line) \<notin> set exit_keywords \<and> api_outcome t = Inr response \<longrightarrow>
      main e opts outcome [t] w =
        (let a = parse_args opts;
             model = model_name (arg_deep a);
             history = [(System, system_prompt), (User, strip line)];
             w0 = show_prompt user_prompt
                    (print_out (lit ''--------------------------------------'')
                       (print_out chat_banner w));
             wq = w0\<lparr>requests := requests w0 @
                    [\<lparr>req_model = model, req_messages = history,
                      req_stream = arg_stream a\<rparr>]\<rparr>;
             wh = print_out (model_header model) wq
         in case (if arg_stream a = PyStr [] then single_branch e response wh
                  else stream_branch e response wh) of
              (Inl x, w2) \<Rightarrow>
                (case handle_exn x w2 of
                   (Continue, w3) \<Rightarrow> (Blocked, show_prompt user_prompt w3)
                 | (Break, w3) \<Rightarrow> (Returned, w3)
                 | (Propagate y, w3) \<Rightarrow> (Raised y, w3))
            | (Inr reply, w2) \<Rightarrow> (Blocked, show_prompt user_prompt w2))) \<and>
   (arg_stream (parse_args opts) \<noteq> PyStr [] \<longrightarrow>
      fst (main e opts outcome ts w) = fst (main e (without_stream opts) outcome ts w) \<and>
      observable (snd (main e opts outcome ts w)) =
      observable (snd (main e (without_stream opts) outcome ts w)))"
proof -
  have p1: "arg_stream (parse_args opts) = PyTrue" if "\<forall>u. OptStream u \<notin> set opts"
    using foldl_set_opt_stream [OF that, of default_args]
    by (simp add: parse_args_def default_args_def)
  have p2: "arg_stream (parse_args (pre @ OptStream v # post)) = PyStr v"
    if "\<forall>u. OptStream u \<notin> set post"
    unfolding parse_args_def using that by (rule foldl_set_opt_last_stream)
  have r1: "print_response e r m PyTrue w = stream_branch e r (print_out (model_header m) w)"
    by (simp add: print_response_def)
  have r2: "print_response e r m (PyStr v) w =
     (if v = [] then single_branch e r (print_out (model_header m) w)
      else stream_branch e r (print_out (model_header m) w))"
    by (simp add: print_response_def)
  note m1 = main_query_branch [of opts q e w contents w1 response ts]
  note m2 = main_chat_branch [of opts e t line response outcome w]
  note n = observable_main [of opts e outcome ts w]
  show ?thesis
    using p1 p2 r1 r2 m1 m2 n by blast
qed

theorem stream_flag_truthiness_witness:
  "(\<forall>u. OptStream u \<notin> set [OptQuery (Some (lit ''hi''))]) \<and>
   arg_stream (parse_args [OptQuery (Some (lit ''hi''))]) = PyTrue \<and>
   arg_stream (parse_args ([OptDeep] @ OptStream (lit ''false'') # [OptQuery (Some (lit ''hi''))])) =
     PyStr (lit ''false'') \<and>
   main example_env [OptStream (lit ''false''), OptQuery (Some (lit ''hi''))]
     (Inr (Stream [Chunk [Some (lit ''ok'')]] None)) [] world0 =
     (Returned,
      \<lparr>stdout = [Print (model_header (lit ''deepseek-chat'')), Rich (lit ''ok''),
                 Print (replicate 4 61)],
       stderr = [],
       requests = [\<lparr>req_model = lit ''deepseek-chat'',
                    req_messages = [(User, professional_prompt @ lit ''hi'')],
                    req_stream = PyStr (lit ''false'')\<rparr>]\<rparr>) \<and>
   main example_env [OptStream [], OptQuery (Some (lit ''hi''))]
     (Inr (Completion [lit ''ok''])) [] world0 =
     (Returned,
      \<lparr>stdout = [Print (model_header (lit ''deepseek-chat'')), Print (lit ''    '' @ lit ''ok''),
                 Print (replicate 4 61)],
       stderr = [],
       requests = [\<lparr>req_model = lit ''deepseek-chat'',
                    req_messages = [(User, professional_prompt @ lit ''hi'')],
                    req_stream = PyStr []\<rparr>]\<rparr>) \<and>
   main example_env [OptChat, OptStream (lit ''0'')] (Inr (Stream [] None)) [hello_turn] world0 =
     (Blocked,
      \<lparr>stdout = [Print chat_banner, Print (lit ''--------------------------------------''),
                 Prompt user_prompt, Print (model_header (lit ''deepseek-chat'')),
                 Rich (lit ''Hi!''), Print (replicate 4 61), Prompt user_prompt],
       stderr = [],
       requests = [\<lparr>req_model = lit ''deepseek-chat'',
                    req_messages = [(System, system_prompt), (User, lit ''hello'')],
                    req_stream = PyStr (lit ''0'')\<rparr>]\<rparr>) \<and>
   arg_stream (parse_args [OptStream (lit ''0''), OptQuery (Some (lit ''hi''))]) \<noteq> PyStr [] \<and>
   without_stream [OptStream (lit ''0''), OptQuery (Some (lit ''hi''))] =
     [OptQuery (Some (lit ''hi''))] \<and>
   fst (main example_env [OptStream (lit ''0''), OptQuery (Some (lit ''hi''))]
          (Inr (Stream [Chunk [Some (lit ''ok'')]] None)) [] world0) =
   fst (main example_env [OptQuery (Some (lit ''hi''))]
          (Inr (Stream [Chunk [Some (lit ''ok'')]] None)) [] world0) \<and>
   observable (snd (main example_env [OptStream (lit ''0''), OptQuery (Some (lit ''hi''))]
          (Inr (Stream [Chunk [Some (lit ''ok'')]] None)) [] world0)) =
   observable (snd (main example_env [OptQuery (Some (lit ''hi''))]
          (Inr (Stream [Chunk [Some (lit ''ok'')]] None)) [] world0))"
proof -
  have hi: "lit ''hi'' \<noteq> []" by (simp add: lit_def)
  have rc: "read_contents example_env a world0 = (Inr (Some []), world0)" for a
    by (simp add: read_contents_def example_env_def)
  have qp: "query_prompt (lit ''hi'') (Some []) b = professional_prompt @ lit ''hi''" for b
    by (simp add: query_prompt_def)
  have a1: "parse_args [OptStream (lit ''false''), OptQuery (Some (lit ''hi''))] =
      \<lparr>arg_query = Some (lit ''hi''), arg_image = False, arg_deep = False, arg_chat = False,
       arg_stream = PyStr (lit ''false'')\<rparr>"
    by (simp add: parse_args_def default_args_def)
  have a2: "parse_args [OptStream [], OptQuery (Some (lit ''hi''))] =
      \<lparr>arg_query = Some (lit ''hi''), arg_image = False, arg_deep = False, arg_chat = False,
       arg_stream = PyStr []\<rparr>"
    by (simp add: parse_args_def default_args_def)
  have a3: "parse_args [OptChat, OptStream (lit ''0'')] =
      \<lparr>arg_query = None, arg_image = False, arg_deep = False, arg_chat = True,
       arg_stream = PyStr (lit ''0'')\<rparr>"
    by (simp add: parse_args_def default_args_def)
  have a4: "parse_args [OptStream (lit ''0''), OptQuery (Some (lit ''hi''))] =
      \<lparr>arg_query = Some (lit ''hi''), arg_image = False, arg_deep = False, arg_chat = False,
       arg_stream = PyStr (lit ''0'')\<rparr>"
    by (simp add: parse_args_def default_args_def)
  have f: "PyStr (lit ''false'') \<noteq> PyStr []" and z: "PyStr (lit ''0'') \<noteq> PyStr []"
    by (simp_all add: lit_def)
  have 1: "(\<forall>u. OptStream u \<notin> set [OptQuery (Some (lit ''hi''))]) \<and>
      arg_stream (parse_args [OptQuery (Some (lit ''hi''))]) = PyTrue"
    using stream_flag_truthiness [where opts = "[OptQuery (Some (lit ''hi''))]", THEN conjunct1]
    by simp
  have 2: "arg_stream (parse_args ([OptDeep] @ OptStream (lit ''false'') #
        [OptQuery (Some (lit ''hi''))])) = PyStr (lit ''false'')"
    using stream_flag_truthiness [where pre = "[OptDeep]" and v = "lit ''false''"
        and post = "[OptQuery (Some (lit ''hi''))]", THEN conjunct2, THEN conjunct1]
    by simp
  have h3: "\<not> arg_chat (parse_args [OptStream (lit ''false''), OptQuery (Some (lit ''hi''))]) \<and>
      arg_query (parse_args [OptStream (lit ''false''), OptQuery (Some (lit ''hi''))]) =
        Some (lit ''hi'') \<and>
      lit ''hi'' \<noteq> [] \<and>
      read_contents example_env
        (parse_args [OptStream (lit ''false''), OptQuery (Some (lit ''hi''))]) world0 =
        (Inr (Some []), world0) \<and>
      truthy_opt (api_key example_env)"
    using hi example_key by (simp add: a1 rc)
  note m3 = stream_flag_truthiness [where opts = "[OptStream (lit ''false''),
          OptQuery (Some (lit ''hi''))]" and e = example_env and q = "lit ''hi''"
        and contents = "Some []" and w = world0 and ?w1.0 = world0
        and response = "Stream [Chunk [Some (lit ''ok'')]] None" and ts = "[]",
      THEN conjunct2, THEN conjunct2, THEN conjunct2, THEN conjunct2, THEN conjunct1,
      THEN mp, OF h3]
  have 3: "main example_env [OptStream (lit ''false''), OptQuery (Some (lit ''hi''))]
     (Inr (Stream [Chunk [Some (lit ''ok'')]] None)) [] world0 =
     (Returned,
      \<lparr>stdout = [Print (model_header (lit ''deepseek-chat'')), Rich (lit ''ok''),
                 Print (replicate 4 61)],
       stderr = [],
       requests = [\<lparr>req_model = lit ''deepseek-chat'',
                    req_messages = [(User, professional_prompt @ lit ''hi'')],
                    req_stream = PyStr (lit ''false'')\<rparr>]\<rparr>)"
    unfolding m3 using f
    by (simp add: a1 qp model_name_def stream_branch_def print_separator_def
        example_terminal accumulate_concat print_out_def display_markdown_with_rich_def
        world0_def Let_def)
  have h4: "\<not> arg_chat (parse_args [OptStream [], OptQuery (Some (lit ''hi''))]) \<and>
      arg_query (parse_args [OptStream [], OptQuery (Some (lit ''hi''))]) =
        Some (lit ''hi'') \<and>
      lit ''hi'' \<noteq> [] \<and>
      read_contents example_env
        (parse_args [OptStream [], OptQuery (Some (lit ''hi''))]) world0 =
        (Inr (Some []), world0) \<and>
      truthy_opt (api_key example_env)"
    using hi example_key by (simp add: a2 rc)
  note m4 = stream_flag_truthiness [where opts = "[OptStream [], OptQuery (Some (lit ''hi''))]"
        and e = example_env and q = "lit ''hi''"
        and contents = "Some []" and w = world0 and ?w1.0 = world0
        and response = "Completion [lit ''ok'']" and ts = "[]",
      THEN conjunct2, THEN conjunct2, THEN conjunct2, THEN conjunct2, THEN conjunct1,
      THEN mp, OF h4]
  have 4: "main example_env [OptStream [], OptQuery (Some (lit ''hi''))]
     (Inr (Completion [lit ''ok''])) [] world0 =
     (Returned,
      \<lparr>stdout = [Print (model_header (lit ''deepseek-chat'')), Print (lit ''    '' @ lit ''ok''),
                 Print (replicate 4 61)],
       stderr = [],
       requests = [\<lparr>req_model = lit ''deepseek-chat'',
                    req_messages = [(User, professional_prompt @ lit ''hi'')],
                    req_stream = PyStr []\<rparr>]\<rparr>)"
    unfolding m4
    by (simp add: a2 qp model_name_def single_branch_def print_separator_def
        example_terminal print_out_def world0_def Let_def)
  have h5: "arg_chat (parse_args [OptChat, OptStream (lit ''0'')]) \<and>
      truthy_opt (api_key example_env) \<and> user_line hello_turn = Inr (lit ''hello'') \<and>
      lower (strip (lit ''hello'')) \<notin> set exit_keywords \<and>
      api_outcome hello_turn =
        Inr (Stream [Chunk [Some (lit ''Hi'')], Chunk [Some (lit ''!'')]] None)"
    using example_key hello_not_exit by (simp add: a3 hello_turn_def strip_hello)
  note m5 = stream_flag_truthiness [where opts = "[OptChat, OptStream (lit ''0'')]"
        and e = example_env and t = hello_turn and line = "lit ''hello''"
        and response = "Stream [Chunk [Some (lit ''Hi'')], Chunk [Some (lit ''!'')]] None"
        and outcome = "Inr (Stream [] None)" and w = world0,
      THEN conjunct2, THEN conjunct2, THEN conjunct2, THEN conjunct2, THEN conjunct2,
      THEN conjunct1, THEN mp, OF h5]
  have 5: "main example_env [OptChat, OptStream (lit ''0'')] (Inr (Stream [] None))
       [hello_turn] world0 =
     (Blocked,
      \<lparr>stdout = [Print chat_banner, Print (lit ''--------------------------------------''),
                 Prompt user_prompt, Print (model_header (lit ''deepseek-chat'')),
                 Rich (lit ''Hi!''), Print (replicate 4 61), Prompt user_prompt],
       stderr = [],
       requests = [\<lparr>req_model = lit ''deepseek-chat'',
                    req_messages = [(System, system_prompt), (User, lit ''hello'')],
                    req_stream = PyStr (lit ''0'')\<rparr>]\<rparr>)"
    unfolding m5 using z
    by (simp add: a3 strip_hello model_name_def stream_branch_def
        print_separator_def example_terminal accumulate_concat print_out_def
        display_markdown_with_rich_def show_prompt_def world0_def Let_def
        lit_append [symmetric])
  have 6: "arg_stream (parse_args [OptStream (lit ''0''), OptQuery (Some (lit ''hi''))]) \<noteq>
      PyStr []"
    using z by (simp add: a4)
  have 7: "without_stream [OptStream (lit ''0''), OptQuery (Some (lit ''hi''))] =
     [OptQuery (Some (lit ''hi''))]"
    by (simp add: without_stream_def)
  note m8 = stream_flag_truthiness [where opts = "[OptStream (lit ''0''),
          OptQuery (Some (lit ''hi''))]" and e = example_env
        and outcome = "Inr (Stream [Chunk [Some (lit ''ok'')]] None)" and ts = "[]"
        and w = world0,
      THEN conjunct2, THEN conjunct2, THEN conjunct2, THEN conjunct2, THEN conjunct2,
      THEN conjunct2, THEN mp, OF 6, unfolded 7]
  show ?thesis using 1 2 3 4 5 6 7 m8 by (intro conjI) simp_all
qed

section \<open>Chat loop\<close>

text \<open>
  C4, as stated: after an exception in the sending or rendering phase the history is as it
  was before the turn. This fails: the user's message is appended before the request is
  sent and nothing removes it. A request that raises on the input \<^verbatim>\<open>hello\<close> leaves a
  history of two messages where there was one.
\<close>

theorem chat_turn_failed_send_counterexample:
  "chat_turn example_env (lit ''deepseek-chat'') PyTrue boom_turn
     ([(System, system_prompt)], world0) =
   (Continue, [(System, system_prompt), (User, lit ''hello'')],
    \<lparr>stdout = [Prompt user_prompt], stderr = [lit ''Error: boom''],
     requests = [\<lparr>req_model = lit ''deepseek-chat'',
                  req_messages = [(System, system_prompt), (User, lit ''hello'')],
                  req_stream = PyTrue\<rparr>]\<rparr>) \<and>
   [(System, system_prompt), (User, lit ''hello'')] \<noteq> [(System, system_prompt)]"
proof -
  have k: "truthy_opt (api_key example_env)"
    by (simp add: example_env_def lit_def)
  have "chat_turn example_env (lit ''deepseek-chat'') PyTrue boom_turn
     ([(System, system_prompt)], world0) =
   (Continue, [(System, system_prompt), (User, lit ''hello'')],
    \<lparr>stdout = [Prompt user_prompt], stderr = [lit ''Error: boom''],
     requests = [\<lparr>req_model = lit ''deepseek-chat'',
                  req_messages = [(System, system_prompt), (User, lit ''hello'')],
                  req_stream = PyTrue\<rparr>]\<rparr>)"
    using chat_turn_send [of boom_turn "lit ''hello''" example_env "lit ''deepseek-chat''"
        PyTrue "[(System, system_prompt)]" world0] hello_not_exit
    by (simp add: boom_turn_def strip_hello call_deepseek_with_key [OF k] world0_def
        show_prompt_def print_err_def lit_append [symmetric])
  then show ?thesis by simp
qed

text \<open>
  C4, amended: an \<^verbatim>\<open>Exception\<close> raised in the sending or rendering phase of a turn is
  caught and reported on the error stream, and the loop is back at its input prompt (the
  prompt written, waiting for input); the
  history from before the turn is kept and is followed by the turn's user message, with no
  assistant message.
\<close>

theorem chat_turn_exception_recovery:
  assumes "user_line t = Inr line" and "lower (strip line) \<notin> set exit_keywords"
    and "turn_result e model strm t = Inl (Exception m)"
  shows "\<exists>w'. chat_turn e model strm t (messages, w) =
                (Continue, messages @ [(User, strip line)], w') \<and>
              chat_loop e model strm [t] (messages, w) =
                (Blocked, messages @ [(User, strip line)], show_prompt user_prompt w') \<and>
              stderr w' = stderr w @ [lit ''Error: '' @ m]"
proof -
  have key: "truthy_opt (api_key e)"
  proof (rule ccontr)
    assume "\<not> truthy_opt (api_key e)"
    then show False using assms(3)
      by (simp add: turn_result_def call_deepseek_without_key)
  qed
  obtain w1 where
    t: "chat_turn e model strm t (messages, w) =
          (fst (handle_exn (Exception m) w1), messages @ [(User, strip line)],
           snd (handle_exn (Exception m) w1))"
    and s: "stderr w1 = stderr w"
    using turn_phases [OF assms(1,2), of e model strm messages w] assms(3) key by auto
  show ?thesis
    using t s by (intro exI [of _ "print_err (lit ''Error: '' @ m) w1"]) (simp add: print_err_def)
qed

theorem chat_turn_exception_recovery_witness:
  "user_line boom_turn = Inr (lit ''hello'') \<and>
   lower (strip (lit ''hello'')) \<notin> set exit_keywords \<and>
   turn_result example_env (lit ''deepseek-chat'') PyTrue boom_turn =
     Inl (Exception (lit ''boom'')) \<and>
   (\<exists>w'. chat_turn example_env (lit ''deepseek-chat'') PyTrue boom_turn
            ([(System, system_prompt)], world0) =
            (Continue, [(System, system_prompt)] @ [(User, strip (lit ''hello''))], w') \<and>
         chat_loop example_env (lit ''deepseek-chat'') PyTrue [boom_turn]
            ([(System, system_prompt)], world0) =
            (Blocked, [(System, system_prompt)] @ [(User, strip (lit ''hello''))],
             show_prompt user_prompt w') \<and>
         stderr w' = stderr world0 @ [lit ''Error: '' @ lit ''boom''])"
proof -
  have k: "truthy_opt (api_key example_env)"
    by (simp add: example_env_def lit_def)
  have 1: "user_line boom_turn = Inr (lit ''hello'')"
    by (simp add: boom_turn_def)
  have 2: "lower (strip (lit ''hello'')) \<notin> set exit_keywords"
    by (simp add: strip_hello hello_not_exit)
  have 3: "turn_result example_env (lit ''deepseek-chat'') PyTrue boom_turn =
     Inl (Exception (lit ''boom''))"
    by (simp add: turn_result_def boom_turn_def call_deepseek_with_key [OF k])
  show ?thesis
    using 1 2 3 chat_turn_exception_recovery [OF 1 2 3, of "[(System, system_prompt)]" world0]
    by simp
qed

text \<open>
  C7: after \<open>n\<close> completed turns the history is the system message followed by the \<open>n\<close>
  pairs of user and assistant message in turn order, \<open>1 + 2 * n\<close> messages in all (seven
  after three turns). The user's message is appended before the request: the request of
  turn \<open>k\<close> (counted from 0) carries the first \<open>2 * k + 2\<close> messages of that history, which
  end with the user's message of that turn; the reply is appended after the response.
\<close>

theorem chat_history_after_completed_turns:
  assumes "\<forall>t\<in>set ts. completed e (model_name deep) strm t"
  shows "\<exists>w'. chat_mode e deep strm ts w =
                (Blocked,
                 (System, system_prompt) # concat (map (pair_of e (model_name deep) strm) ts),
                 w') \<and>
              length ((System, system_prompt) #
                      concat (map (pair_of e (model_name deep) strm) ts)) =
                1 + 2 * length ts \<and>
              map req_messages (requests w') =
                map req_messages (requests w) @
                map (\<lambda>k. take (2 * k + 2)
                            ((System, system_prompt) #
                             concat (map (pair_of e (model_name deep) strm) ts)))
                    [0..<length ts]"
proof -
  let ?w0 = "print_out (lit ''--------------------------------------'') (print_out chat_banner w)"
  let ?h = "concat (map (pair_of e (model_name deep) strm) ts)"
  obtain w' where l: "chat_loop e (model_name deep) strm ts ([(System, system_prompt)], ?w0) =
        (Blocked, [(System, system_prompt)] @ ?h, w')"
    and q: "map req_messages (requests w') =
              map req_messages (requests ?w0) @
              map (\<lambda>k. take (length [(System, system_prompt)] + 2 * k + 1)
                          ([(System, system_prompt)] @ ?h))
                  [0..<length ts]"
    using chat_loop_completed [OF assms, of "[(System, system_prompt)]" ?w0] by blast
  have f: "(\<lambda>k. take (length [(System, system_prompt)] + 2 * k + 1)
                ([(System, system_prompt)] @ ?h)) =
           (\<lambda>k. take (2 * k + 2) ((System, system_prompt) # ?h))"
    by (rule ext) (simp del: take_append)
  have r: "requests ?w0 = requests w"
    by (simp add: print_out_def)
  have c: "chat_mode e deep strm ts w = (Blocked, (System, system_prompt) # ?h, w')"
    using l by (simp add: chat_mode_def)
  have n: "length ((System, system_prompt) # ?h) = 1 + 2 * length ts"
    by (simp add: length_pairs)
  have s: "map req_messages (requests w') =
        map req_messages (requests w) @
        map (\<lambda>k. take (2 * k + 2) ((System, system_prompt) # ?h)) [0..<length ts]"
    using q unfolding f r .
  show ?thesis using c n s by (intro exI [of _ w'] conjI)
qed

theorem chat_history_after_completed_turns_witness:
  "completed example_env (model_name False) PyTrue hello_turn \<and>
   completed example_env (model_name False) PyTrue why_turn \<and>
   (\<exists>w'. chat_mode example_env False PyTrue [hello_turn, why_turn, hello_turn] world0 =
           (Blocked,
            [(System, system_prompt),
             (User, lit ''hello''), (Assistant, lit ''Hi!''),
             (User, lit ''Why?''), (Assistant, lit ''Because.''),
             (User, lit ''hello''), (Assistant, lit ''Hi!'')],
            w') \<and>
         map req_messages (requests w') =
           [[(System, system_prompt), (User, lit ''hello'')],
            [(System, system_prompt), (User, lit ''hello''), (Assistant, lit ''Hi!''),
             (User, lit ''Why?'')],
            [(System, system_prompt), (User, lit ''hello''), (Assistant, lit ''Hi!''),
             (User, lit ''Why?''), (Assistant, lit ''Because.''), (User, lit ''hello'')]]) \<and>
   length [(System, system_prompt),
           (User, lit ''hello''), (Assistant, lit ''Hi!''),
           (User, lit ''Why?''), (Assistant, lit ''Because.''),
           (User, lit ''hello''), (Assistant, lit ''Hi!'')] = 7"
proof -
  have c: "\<forall>t\<in>set [hello_turn, why_turn, hello_turn].
      completed example_env (model_name False) PyTrue t"
    by (simp add: hello_completed why_completed)
  have u: "[0..<length [hello_turn, why_turn, hello_turn]] = [0, 1, 2]"
    by (simp add: upt_rec)
  show ?thesis
    using hello_completed why_completed chat_history_after_completed_turns [OF c, of world0]
    unfolding u by (simp add: hello_pair why_pair world0_def)
qed

text \<open>
  C8, as stated: the loop terminates only when the input matches an exit keyword. This
  fails: without the credential the first input that is not an exit keyword ends the loop
  with \<^verbatim>\<open>SystemExit(1)\<close>, which neither \<^verbatim>\<open>except\<close> clause catches.
\<close>

theorem chat_loop_stops_without_keyword_counterexample:
  "chat_mode no_key_env False PyTrue [hello_turn] world0 =
     (Raised (SystemExit 1), [(System, system_prompt), (User, lit ''hello'')],
      \<lparr>stdout = [Print chat_banner, Print (lit ''--------------------------------------''),
                 Prompt user_prompt],
       stderr = [lit ''Failed to find API key.''], requests = []\<rparr>) \<and>
   \<not> is_exit_input hello_turn"
proof -
  have u: "user_line hello_turn = Inr (lit ''hello'')"
    by (simp add: hello_turn_def)
  have "chat_mode no_key_env False PyTrue [hello_turn] world0 =
     (Raised (SystemExit 1), [(System, system_prompt), (User, lit ''hello'')],
      \<lparr>stdout = [Print chat_banner, Print (lit ''--------------------------------------''),
                 Prompt user_prompt],
       stderr = [lit ''Failed to find API key.''], requests = []\<rparr>)"
    using chat_turn_send [OF u, of no_key_env "model_name False" PyTrue
        "[(System, system_prompt)]"
        "print_out (lit ''--------------------------------------'')
           (print_out chat_banner world0)"]
      hello_not_exit
    by (simp add: chat_mode_def strip_hello call_deepseek_without_key [OF no_key]
        print_out_def print_err_def show_prompt_def world0_def)
  then show ?thesis using hello_input by simp
qed

text \<open>
  C8, amended: the loop returns exactly when some pass reads a line that, stripped and
  lower-cased, is one of the three exit keywords; that pass leaves the history and the
  requests as they were. The only other way out of the loop is a \<^verbatim>\<open>SystemExit\<close>. An
  interrupt at the input prompt prints the hint and the loop goes on with the next input.
\<close>

theorem chat_loop_exit_conditions:
  "(fst (chat_loop e model strm ts (messages, w)) = Returned \<longleftrightarrow>
      (\<exists>pre t post. ts = pre @ t # post \<and>
         fst (chat_loop e model strm pre (messages, w)) = Blocked \<and> is_exit_input t)) \<and>
   (is_exit_input t \<longrightarrow>
      chat_turn e model strm t (messages, w) = (Break, messages, show_prompt user_prompt w)) \<and>
   (fst (chat_loop e model strm ts (messages, w)) = Raised x \<longrightarrow> (\<exists>n. x = SystemExit n)) \<and>
   (user_line t = Inl KeyboardInterrupt \<longrightarrow>
      chat_loop e model strm (t # ts) (messages, w) =
        chat_loop e model strm ts
          (messages, print_out exit_hint (show_prompt user_prompt w)))"
proof -
  have i: "chat_loop e model strm (t # ts) (messages, w) =
        chat_loop e model strm ts
          (messages, print_out exit_hint (show_prompt user_prompt w))"
    if "user_line t = Inl KeyboardInterrupt"
    using that by (simp add: chat_turn_input_raises)
  show ?thesis
    using chat_loop_returned [of e model strm ts "(messages, w)"]
      chat_turn_exit [of t e model strm messages w]
      chat_loop_raised [of e model strm ts "(messages, w)" x] i
    by blast
qed

theorem chat_loop_exit_conditions_witness:
  "fst (chat_loop example_env (model_name False) PyTrue
          [hello_turn, interrupt_turn, exit_turn] ([(System, system_prompt)], world0)) =
     Returned \<and>
   is_exit_input exit_turn \<and>
   chat_turn example_env (model_name False) PyTrue exit_turn
       ([(System, system_prompt)], world0) =
     (Break, [(System, system_prompt)], show_prompt user_prompt world0) \<and>
   user_line interrupt_turn = Inl KeyboardInterrupt \<and>
   chat_loop example_env (model_name False) PyTrue [interrupt_turn, exit_turn]
       ([(System, system_prompt)], world0) =
     chat_loop example_env (model_name False) PyTrue [exit_turn]
       ([(System, system_prompt)], print_out exit_hint (show_prompt user_prompt world0))"
proof -
  have b: "fst (chat_loop example_env (model_name False) PyTrue [hello_turn, interrupt_turn]
             ([(System, system_prompt)], world0)) = Blocked"
    by (simp add: chat_loop_step chat_loop_Nil_fst hello_continues interrupt_continues
        del: chat_loop.simps)
  have p: "\<exists>pre t post. [hello_turn, interrupt_turn, exit_turn] = pre @ t # post \<and>
      fst (chat_loop example_env (model_name False) PyTrue pre
             ([(System, system_prompt)], world0)) = Blocked \<and> is_exit_input t"
    using b exit_input
    by (intro exI [of _ "[hello_turn, interrupt_turn]"] exI [of _ exit_turn] exI [of _ "[]"])
       simp
  have k: "user_line interrupt_turn = Inl KeyboardInterrupt"
    by (simp add: interrupt_turn_def)
  have 1: "fst (chat_loop example_env (model_name False) PyTrue
          [hello_turn, interrupt_turn, exit_turn] ([(System, system_prompt)], world0)) =
     Returned"
    using p chat_loop_exit_conditions [of example_env "model_name False" PyTrue
        "[hello_turn, interrupt_turn, exit_turn]" "[(System, system_prompt)]" world0]
    by blast
  have 2: "chat_turn example_env (model_name False) PyTrue exit_turn
       ([(System, system_prompt)], world0) =
     (Break, [(System, system_prompt)], show_prompt user_prompt world0)"
    using exit_input chat_loop_exit_conditions [of example_env "model_name False" PyTrue
        "[]" "[(System, system_prompt)]" world0 exit_turn]
    by blast
  have 3: "chat_loop example_env (model_name False) PyTrue [interrupt_turn, exit_turn]
       ([(System, system_prompt)], world0) =
     chat_loop example_env (model_name False) PyTrue [exit_turn]
       ([(System, system_prompt)], print_out exit_hint (show_prompt user_prompt world0))"
    using k chat_loop_exit_conditions [of example_env "model_name False" PyTrue
        "[exit_turn]" "[(System, system_prompt)]" world0 interrupt_turn]
    by blast
  show ?thesis using 1 2 3 k exit_input by (intro conjI)
qed

end
